theory Spec2Isabelle
  imports Main "HOL-Library.Sublist" "HOL-Library.Word"
begin

section \<open>Python text primitives used by the scripts\<close>

text \<open>
  Python \<open>str\<close> values are modelled as \<open>string\<close>; \<open>len\<close> is \<open>length\<close>, the slice
  \<open>s[:n]\<close> is \<open>take n s\<close>, \<open>s[n:]\<close> is \<open>drop n s\<close> and, for \<open>0 < n\<close>, \<open>s[-n:]\<close> keeps the
  last \<open>n\<close> characters (the whole text when it is shorter).
\<close>

definition py_last_n :: "nat \<Rightarrow> string \<Rightarrow> string" where
  "py_last_n n s = drop (length s - n) s"

text \<open>
  \<open>str.strip()\<close> removes the characters for which \<open>str.isspace\<close> holds from both ends.
  Among the code points below 256 these are 9-13, 28-32, 133 and 160.
\<close>

definition py_isspace :: "char \<Rightarrow> bool" where
  "py_isspace c =
     (let n = (of_char c :: nat)
      in (9 \<le> n \<and> n \<le> 13) \<or> (28 \<le> n \<and> n \<le> 32) \<or> n = 133 \<or> n = 160)"

definition py_lstrip :: "string \<Rightarrow> string" where
  "py_lstrip s = dropWhile py_isspace s"

definition py_rstrip :: "string \<Rightarrow> string" where
  "py_rstrip s = rev (dropWhile py_isspace (rev s))"

definition py_strip :: "string \<Rightarrow> string" where
  "py_strip s = py_rstrip (py_lstrip s)"

text \<open>
  \<open>s.find(c)\<close> and \<open>s.rfind(c)\<close> for a one-character \<open>c\<close>: the index of the first
  (last) occurrence, or \<open>-1\<close>.
\<close>

definition py_find :: "char \<Rightarrow> string \<Rightarrow> int" where
  "py_find c s =
     (if c \<in> set s then int (length (takeWhile (\<lambda>x. x \<noteq> c) s)) else - 1)"

definition py_rfind :: "char \<Rightarrow> string \<Rightarrow> int" where
  "py_rfind c s =
     (if c \<in> set s
      then int (length s) - 1 - int (length (takeWhile (\<lambda>x. x \<noteq> c) (rev s)))
      else - 1)"

text \<open>The slice \<open>s[i:j]\<close> for \<open>0 \<le> i\<close> and \<open>0 \<le> j\<close>.\<close>

definition py_slice :: "int \<Rightarrow> int \<Rightarrow> string \<Rightarrow> string" where
  "py_slice i j s = take (nat j - nat i) (drop (nat i) s)"

text \<open>
  \<open>s.split(sep)\<close> for a non-empty separator: the pieces between the successive
  non-overlapping occurrences of \<open>sep\<close>, scanning from the left.
\<close>

function py_split :: "string \<Rightarrow> string \<Rightarrow> string list" where
  "py_split sep s =
     (if s = [] \<or> sep = [] then [s]
      else if prefix sep s then [] # py_split sep (drop (length sep) s)
      else (case py_split sep (tl s) of
              [] \<Rightarrow> [[hd s]]
            | piece # pieces \<Rightarrow> (hd s # piece) # pieces))"
  by pat_completeness auto
termination
  by (relation "measure (\<lambda>(sep, s). length s)") auto

text \<open>\<open>sub in s\<close> for two strings.\<close>

fun py_in_str :: "string \<Rightarrow> string \<Rightarrow> bool" where
  "py_in_str sub [] = (sub = [])"
| "py_in_str sub (c # cs) = (prefix sub (c # cs) \<or> py_in_str sub cs)"

section \<open>Decoded JSON values\<close>

text \<open>
  What \<open>json.loads\<close> and \<open>resp.json()\<close> return: \<open>None\<close>, \<open>bool\<close>, \<open>int\<close>, \<open>float\<close>
  (an IEEE-754 double, kept as its 64 bits), \<open>str\<close>, \<open>list\<close> and \<open>dict\<close> (string keys,
  in insertion order). \<open>JNull\<close> is Python's \<open>None\<close>.
\<close>

datatype json =
    JNull
  | JBool bool
  | JInt int
  | JFloat "64 word"
  | JStr string
  | JArr "json list"
  | JObj "(string \<times> json) list"

text \<open>Python truth value: \<open>not v\<close> is \<open>\<not> truthy v\<close>.\<close>

fun truthy :: "json \<Rightarrow> bool" where
  "truthy JNull = False"
| "truthy (JBool b) = b"
| "truthy (JInt i) = (i \<noteq> 0)"
| "truthy (JFloat w) = (w \<noteq> 0 \<and> w \<noteq> 0x8000000000000000)"
| "truthy (JStr s) = (s \<noteq> [])"
| "truthy (JArr xs) = (xs \<noteq> [])"
| "truthy (JObj d) = (d \<noteq> [])"

text \<open>\<open>d.get(k)\<close> on a dict: the value, or \<open>None\<close>.\<close>

definition dict_get :: "(string \<times> json) list \<Rightarrow> string \<Rightarrow> json" where
  "dict_get d k = (case map_of d k of None \<Rightarrow> JNull | Some v \<Rightarrow> v)"

text \<open>\<open>d[k] = v\<close>: replaces the value in place, or appends the new key.\<close>

fun dict_set :: "(string \<times> json) list \<Rightarrow> string \<Rightarrow> json \<Rightarrow> (string \<times> json) list" where
  "dict_set [] k v = [(k, v)]"
| "dict_set (p # ps) k v = (if fst p = k then (k, v) # ps else p # dict_set ps k v)"

text \<open>\<open>v.get(k)\<close> on any value: only a dict has the method (\<open>AttributeError\<close> otherwise).\<close>

fun py_get :: "json \<Rightarrow> string \<Rightarrow> json option" where
  "py_get (JObj d) k = Some (dict_get d k)"
| "py_get _ k = None"

text \<open>\<open>v[k]\<close> for a string key: a dict that has the key; everything else raises.\<close>

fun py_item :: "json \<Rightarrow> string \<Rightarrow> json option" where
  "py_item (JObj d) k = map_of d k"
| "py_item _ k = None"

text \<open>\<open>v[0]\<close>: the first element of a list, the first character of a string.\<close>

fun py_item0 :: "json \<Rightarrow> json option" where
  "py_item0 (JArr (x # xs)) = Some x"
| "py_item0 (JStr (c # cs)) = Some (JStr [c])"
| "py_item0 _ = None"

text \<open>\<open>for x in v\<close>: list elements, dict keys, the characters of a string.\<close>

fun py_iter :: "json \<Rightarrow> json list option" where
  "py_iter (JArr xs) = Some xs"
| "py_iter (JObj d) = Some (map (\<lambda>p. JStr (fst p)) d)"
| "py_iter (JStr s) = Some (map (\<lambda>c. JStr [c]) s)"
| "py_iter _ = None"

text \<open>\<open>len(v)\<close>.\<close>

fun py_len :: "json \<Rightarrow> nat option" where
  "py_len (JArr xs) = Some (length xs)"
| "py_len (JObj d) = Some (length d)"
| "py_len (JStr s) = Some (length s)"
| "py_len _ = None"

text \<open>\<open>v[:n]\<close>: a prefix of a string or list; a dict or a scalar raises.\<close>

fun py_prefix :: "nat \<Rightarrow> json \<Rightarrow> json option" where
  "py_prefix n (JStr s) = Some (JStr (take n s))"
| "py_prefix n (JArr xs) = Some (JArr (take n xs))"
| "py_prefix n _ = None"


section \<open>extract-from-transcript.py: bounding the transcript\<close>

definition max_chars :: nat where
  "max_chars = 100000"

definition half :: nat where
  "half = max_chars div 2"

definition truncation_marker :: string where
  "truncation_marker =
     [CHR 0x0A, CHR 0x0A] @ ''[... transcript truncated ...]'' @ [CHR 0x0A, CHR 0x0A]"

text \<open>Lines 199-203 of \<open>main\<close>.\<close>

definition truncate_transcript :: "string \<Rightarrow> string" where
  "truncate_transcript transcript =
     (if length transcript > max_chars
      then take half transcript @ truncation_marker @ py_last_n half transcript
      else transcript)"

section \<open>The environment of a run\<close>

text \<open>
  Everything the scripts read from outside is a field of \<open>world\<close>: the decoder
  \<open>json.loads\<close> (\<open>None\<close> when it raises, and then \<open>json_error\<close> is the exception it
  raises: \<open>JSONDecodeError\<close> on a text that is not JSON, \<open>RecursionError\<close> on one nested
  too deep, \<open>ValueError\<close> on an integer of too many digits), the credential variable, and
  what each HTTP request yields. A reply is the decoded body \<open>resp.json()\<close>, or \<open>None\<close>
  when the request, \<open>raise_for_status\<close> or the decoding raises. The persistence daemon may
  answer a \<open>/store\<close> request according to the bodies it was sent before.
\<close>

datatype health_reply = Health_status nat | Health_connection_error | Health_other_error

datatype pyerr =
    AttributeError
  | TypeError
  | KeyError
  | RequestError
  | JSONDecodeError
  | RecursionError
  | ValueError

record world =
  json_loads :: "string \<Rightarrow> json option"
  json_error :: "string \<Rightarrow> pyerr"
  api_key :: "string option"
  anthropic_reply :: "string \<Rightarrow> json option"
  ollama_tags :: "json option"
  ollama_generate :: "string \<Rightarrow> string \<Rightarrow> json option"
  daemon_health :: health_reply
  daemon_store :: "json list \<Rightarrow> json \<Rightarrow> json option"
  daemon_stats :: "json option"

text \<open>One constructor for each \<open>print\<close> of the two scripts, with the values it interpolates.\<close>

datatype diag =
    Extracting
  | Anthropic_error
  | Anthropic_unavailable
  | Ollama_error
  | No_models
  | Using_model string
  | No_llm
  | No_learnings
  | Extracted nat
  | Daemon_unhealthy
  | Daemon_unreachable
  | Stored_line json json
  | Duplicate_line json
  | Failed_to_store
  | Stored_summary nat nat
  | Traceback pyerr
  | Import_unhealthy
  | Import_cannot_connect
  | Import_invalid_json nat
  | Import_missing_fields nat
  | Import_stored json json
  | Import_duplicate json json
  | Import_other nat json
  | Import_request_failed nat
  | Import_summary nat nat nat
  | Import_stats json json

text \<open>
  What a run does, in order: the requests it issues, the lines it prints on the diagnostic
  stream, and what it prints on standard output (\<open>Stdout_json v\<close> is
  \<open>print(json.dumps(v, indent=2))\<close>).
\<close>

datatype event =
    Net_anthropic string
  | Net_tags
  | Net_generate string string
  | Net_health
  | Net_store json
  | Net_stats
  | Stderr diag
  | Stdout_json json
  | Stdout diag

datatype outcome = Exit (exit_code: int) (events: "event list")

fun store_body :: "event \<Rightarrow> json option" where
  "store_body (Net_store b) = Some b"
| "store_body _ = None"

definition store_calls :: "event list \<Rightarrow> json list" where
  "store_calls log = List.map_filter store_body log"

fun stdout_value :: "event \<Rightarrow> json option" where
  "stdout_value (Stdout_json v) = Some v"
| "stdout_value _ = None"

definition stdout_dumps :: "event list \<Rightarrow> json list" where
  "stdout_dumps log = List.map_filter stdout_value log"

section \<open>extract-from-transcript.py\<close>

definition EXTRACTION_PROMPT :: string where
  \<open>EXTRACTION_PROMPT =
    concat (map (\<lambda>line. line @ [CHR 0x0A])
     [
      ''Analyze this Claude Code session transcript and extract learnings that should be remembered for future sessions.'',
      '''',
      ''## What to Extract'',
      '''',
      ''1. **WORKING_SOLUTION** - Commands, code patterns, or approaches that WORKED after trial and error'',
      ''2. **GOTCHA** - Counterintuitive behaviors, traps, or "watch out for this" knowledge  '',
      ''3. **PATTERN** - Recurring architectural decisions or workflows'',
      ''4. **DECISION** - Explicit design choices and their reasoning'',
      ''5. **FAILURE** - Things that looked promising but didn't work, and WHY'',
      ''6. **PREFERENCE** - User's stated preferences for how they want things done'',
      '''',
      ''## Rules'',
      '''',
      ''1. Be specific - include actual commands, file paths, error messages'',
      ''2. Prefer solutions over problems - only extract FAILURE if no solution was found'',
      ''3. Confidence: 0.95+ = confirmed working, 0.85-0.94 = strong evidence, 0.70-0.84 = reasonable inference'',
      ''4. Skip generic programming knowledge Claude already knows'',
      ''5. Focus on user-specific infrastructure, preferences, and workflows'',
      '''',
      ''## Output Format'',
      '''',
      ''Output ONLY valid JSON array, no other text:'',
      '''',
      ''['',
      ''  {"type": "WORKING_SOLUTION", "content": "specific solution here", "context": "what it solves", "confidence": 0.95},'',
      ''  {"type": "GOTCHA", "content": "specific gotcha here", "context": "when this applies", "confidence": 0.90}'',
      '']'',
      '''',
      ''If no learnings are worth extracting, output: []'',
      '''',
      ''## Transcript'',
      ''''])\<close>

subsection \<open>Recovering JSON from a model's answer\<close>

definition fence :: string where
  "fence = [CHR 0x60, CHR 0x60, CHR 0x60]"

definition newline :: string where
  "newline = [CHR 0x0A]"

text \<open>
  Lines 82-86 of \<open>extract_with_anthropic\<close>; \<open>None\<close> is the \<open>IndexError\<close> of
  \<open>content.split(...)[1]\<close>.
\<close>

definition strip_fence :: "string \<Rightarrow> string option" where
  "strip_fence text =
     (let content = py_strip text
      in if prefix fence content
         then (case py_split fence content of
                 first # content # pieces \<Rightarrow>
                   Some (if prefix ''json'' content then drop 4 content else content)
               | _ \<Rightarrow> None)
         else Some content)"

text \<open>Lines 82-88 of \<open>extract_with_anthropic\<close>: strip the fence, decode.\<close>

definition anthropic_decode :: "world \<Rightarrow> string \<Rightarrow> json option" where
  "anthropic_decode w text = Option.bind (strip_fence text) (json_loads w)"

text \<open>Lines 138-141 of \<open>extract_with_ollama\<close>, on the stripped response.\<close>

definition bracket_scan :: "string \<Rightarrow> string" where
  "bracket_scan content =
     (let start = py_find (CHR ''['') content;
          end = py_rfind (CHR '']'') content + 1
      in if start \<ge> 0 \<and> end > start then py_slice start end content else content)"

text \<open>
  Lines 135-143 of \<open>extract_with_ollama\<close>: strip the response, cut at the brackets,
  decode.
\<close>

definition ollama_decode :: "world \<Rightarrow> string \<Rightarrow> json option" where
  "ollama_decode w response = json_loads w (bracket_scan (py_strip response))"

subsection \<open>The Anthropic provider\<close>

text \<open>\<open>resp.json()["content"][0]["text"]\<close>, which must be a \<open>str\<close> for \<open>.strip()\<close>.\<close>

definition anthropic_text :: "json \<Rightarrow> string option" where
  "anthropic_text r =
     (case Option.bind (Option.bind (py_item r ''content'') py_item0) (\<lambda>b. py_item b ''text'') of
        Some (JStr t) \<Rightarrow> Some t
      | _ \<Rightarrow> None)"

text \<open>
  The provider returns a decoded value, or \<open>JNull\<close> (Python's \<open>None\<close>) when it is
  unavailable, together with what it did.
\<close>

definition extract_with_anthropic :: "world \<Rightarrow> string \<Rightarrow> json \<times> event list" where
  "extract_with_anthropic w transcript =
     (case api_key w of
        None \<Rightarrow> (JNull, [])
      | Some key \<Rightarrow>
          if key = [] then (JNull, [])
          else
            (let prompt = EXTRACTION_PROMPT @ transcript
             in case Option.bind (Option.bind (anthropic_reply w prompt) anthropic_text)
                       (anthropic_decode w) of
                  None \<Rightarrow> (JNull, [Net_anthropic prompt, Stderr Anthropic_error])
                | Some learnings \<Rightarrow> (learnings, [Net_anthropic prompt])))"

subsection \<open>The Ollama provider\<close>

text \<open>\<open>m["name"].split(":")[0]\<close>.\<close>

definition model_name :: "json \<Rightarrow> string option" where
  "model_name m =
     (case py_item m ''name'' of
        Some (JStr n) \<Rightarrow> (case py_split '':'' n of base # pieces \<Rightarrow> Some base | [] \<Rightarrow> None)
      | _ \<Rightarrow> None)"

text \<open>
  Line 101: the names of \<open>resp.json().get("models", [])\<close>; \<open>None\<close> when any step raises.
\<close>

definition available_models :: "json \<Rightarrow> string list option" where
  "available_models r =
     (case r of
        JObj d \<Rightarrow>
          Option.bind (py_iter (case map_of d ''models'' of None \<Rightarrow> JArr [] | Some v \<Rightarrow> v))
            (\<lambda>ms. those (map model_name ms))
      | _ \<Rightarrow> None)"

definition preferred :: "string list" where
  "preferred = [''llama3'', ''mistral'', ''mixtral'', ''codellama'', ''deepseek-coder'']"

text \<open>Lines 105-112: the variable \<open>selected\<close> after the two selection steps.\<close>

definition select_model :: "string list \<Rightarrow> string option" where
  "select_model available =
     (case find (\<lambda>m. m \<in> set available) preferred of
        Some m \<Rightarrow> Some m
      | None \<Rightarrow> (case available of [] \<Rightarrow> None | m # ms \<Rightarrow> Some m))"

text \<open>\<open>resp.json()["response"]\<close>, which must be a \<open>str\<close> for \<open>.strip()\<close>.\<close>

definition ollama_text :: "json \<Rightarrow> string option" where
  "ollama_text r = (case py_item r ''response'' of Some (JStr t) \<Rightarrow> Some t | _ \<Rightarrow> None)"

definition extract_with_ollama :: "world \<Rightarrow> string \<Rightarrow> json \<times> event list" where
  "extract_with_ollama w transcript =
     (case Option.bind (ollama_tags w) available_models of
        None \<Rightarrow> (JNull, [Net_tags, Stderr Ollama_error])
      | Some available \<Rightarrow>
          (case select_model available of
             None \<Rightarrow> (JNull, [Net_tags, Stderr No_models])
           | Some selected \<Rightarrow>
               if selected = [] then (JNull, [Net_tags, Stderr No_models])
               else
                 (let prompt = EXTRACTION_PROMPT @ transcript;
                      log = [Net_tags, Stderr (Using_model selected), Net_generate selected prompt]
                  in case Option.bind (Option.bind (ollama_generate w selected prompt) ollama_text)
                            (ollama_decode w) of
                       None \<Rightarrow> (JNull, log @ [Stderr Ollama_error])
                     | Some learnings \<Rightarrow> (learnings, log))))"

subsection \<open>Storing the learnings\<close>

text \<open>
  The body of the \<open>try\<close> of \<open>store_learnings\<close> for one record that passed the check of
  line 154: the request, the count, and the line printed.
\<close>

definition store_one ::
  "world \<Rightarrow> string \<Rightarrow> (string \<times> json) list \<Rightarrow> nat \<times> event list \<Rightarrow> nat \<times> event list" where
  "store_one w session_id d st =
     (let learning = dict_set d ''session_source'' (JStr session_id);
          log = snd st @ [Net_store (JObj learning)]
      in case Option.bind (daemon_store w (store_calls (snd st)) (JObj learning))
                (\<lambda>result. py_get result ''status'') of
           None \<Rightarrow> (fst st, log @ [Stderr Failed_to_store])
         | Some status \<Rightarrow>
             if status = JStr ''stored'' then
               (fst st + 1,
                log @ [Stderr (case py_prefix 60 (dict_get learning ''content'') of
                                 None \<Rightarrow> Failed_to_store
                               | Some c \<Rightarrow> Stored_line (dict_get learning ''type'') c)])
             else if status = JStr ''duplicate'' then
               (fst st,
                log @ [Stderr (case py_prefix 40 (dict_get learning ''content'') of
                                 None \<Rightarrow> Failed_to_store
                               | Some c \<Rightarrow> Duplicate_line c)])
             else (fst st, log))"

text \<open>
  The loop of \<open>store_learnings\<close>. \<open>learning.get\<close> is outside the \<open>try\<close>: an element
  that is not a dict ends the run with an \<open>AttributeError\<close>.
\<close>

fun store_loop ::
  "world \<Rightarrow> string \<Rightarrow> json list \<Rightarrow> nat \<times> event list \<Rightarrow> (pyerr + nat) \<times> event list" where
  "store_loop w session_id [] st = (Inr (fst st), snd st)"
| "store_loop w session_id (learning # rest) st =
     (case learning of
        JObj d \<Rightarrow>
          if \<not> truthy (dict_get d ''type'') \<or> \<not> truthy (dict_get d ''content'')
          then store_loop w session_id rest st
          else store_loop w session_id rest (store_one w session_id d st)
      | _ \<Rightarrow> (Inl AttributeError, snd st))"

definition store_learnings ::
  "world \<Rightarrow> json \<Rightarrow> string \<Rightarrow> event list \<Rightarrow> (pyerr + nat) \<times> event list" where
  "store_learnings w learnings session_id log =
     (case py_iter learnings of
        None \<Rightarrow> (Inl TypeError, log)
      | Some records \<Rightarrow> store_loop w session_id records (0, log))"

text \<open>A record that the check of line 154 of \<open>store_learnings\<close> does not skip.\<close>

definition eligible :: "(string \<times> json) list \<Rightarrow> bool" where
  "eligible d = (truthy (dict_get d ''type'') \<and> truthy (dict_get d ''content''))"

text \<open>The body of the request: the record after \<open>learning["session_source"] = session_id\<close>.\<close>

definition attach_source :: "string \<Rightarrow> (string \<times> json) list \<Rightarrow> json" where
  "attach_source session_id d = JObj (dict_set d ''session_source'' (JStr session_id))"

subsection \<open>The entry point\<close>

text \<open>Lines 211-215: Anthropic first, then Ollama.\<close>

definition extract_learnings :: "world \<Rightarrow> string \<Rightarrow> json \<times> event list" where
  "extract_learnings w transcript =
     (let first = extract_with_anthropic w transcript
      in if fst first = JNull
         then (let second = extract_with_ollama w transcript
               in (fst second, snd first @ [Stderr Anthropic_unavailable] @ snd second))
         else first)"

text \<open>
  Lines 225-241, for learnings that are neither \<open>None\<close> nor falsy. In the \<open>try\<close> of the
  health probe, \<open>sys.exit(1)\<close> raises \<open>SystemExit\<close>, which the bare \<open>except\<close> catches:
  on a status other than 200 both branches run.
\<close>

definition store_phase :: "world \<Rightarrow> json \<Rightarrow> string \<Rightarrow> event list \<Rightarrow> outcome" where
  "store_phase w learnings session_id log =
     (case py_len learnings of
        None \<Rightarrow> Exit 1 (log @ [Stderr (Traceback TypeError)])
      | Some n \<Rightarrow>
          (let log = log @ [Stderr (Extracted n), Net_health]
           in case daemon_health w of
                Health_status code \<Rightarrow>
                  if code \<noteq> 200
                  then Exit 1 (log @ [Stderr Daemon_unhealthy, Stdout_json learnings,
                                      Stderr Daemon_unreachable, Stdout_json learnings])
                  else (case store_learnings w learnings session_id log of
                          (Inl e, log) \<Rightarrow> Exit 1 (log @ [Stderr (Traceback e)])
                        | (Inr stored, log) \<Rightarrow> Exit 0 (log @ [Stderr (Stored_summary stored n)]))
              | _ \<Rightarrow> Exit 1 (log @ [Stderr Daemon_unreachable, Stdout_json learnings])))"

text \<open>
  \<open>main\<close> from line 199 on, for the text of an existing transcript file and the name of
  its directory.
\<close>

definition main :: "world \<Rightarrow> string \<Rightarrow> string \<Rightarrow> outcome" where
  "main w text session_id =
     (let transcript = truncate_transcript text;
          extraction = extract_learnings w transcript;
          learnings = fst extraction;
          log = Stderr Extracting # snd extraction
      in if learnings = JNull then Exit 1 (log @ [Stderr No_llm])
         else if \<not> truthy learnings then Exit 0 (log @ [Stderr No_learnings])
         else store_phase w learnings session_id log)"

section \<open>import-learnings.py\<close>

record tally =
  imported :: nat
  duplicates :: nat
  errors :: nat
  printed :: "event list"

text \<open>
  The format \<open>:.2f\<close> accepts a number (a \<open>bool\<close> is one) and raises on anything else, also
  on an \<open>int\<close> that is too large for a \<open>float\<close> (\<open>OverflowError\<close>: one that rounds to
  \<open>2 ^ 1024\<close>).
\<close>

fun py_format_float :: "json \<Rightarrow> json option" where
  "py_format_float (JInt i) =
     (if \<bar>i\<bar> < 2 ^ 1024 - 2 ^ 970 then Some (JInt i) else None)"
| "py_format_float (JFloat x) = Some (JFloat x)"
| "py_format_float (JBool b) = Some (JBool b)"
| "py_format_float _ = None"

text \<open>Lines 61-81: the \<open>try\<close> around the request for one line that passed the field check.\<close>

definition import_store :: "world \<Rightarrow> nat \<Rightarrow> json \<Rightarrow> tally \<Rightarrow> tally" where
  "import_store w line_num learning st =
     (let log = printed st @ [Net_store learning];
          failed = Stdout (Import_request_failed line_num)
      in case daemon_store w (store_calls (printed st)) learning of
           None \<Rightarrow> st\<lparr>errors := errors st + 1, printed := log @ [failed]\<rparr>
         | Some result \<Rightarrow>
             (case py_get result ''status'' of
                None \<Rightarrow> st\<lparr>errors := errors st + 1, printed := log @ [failed]\<rparr>
              | Some status \<Rightarrow>
                  if status = JStr ''stored'' then
                    (case (py_item learning ''type'',
                           Option.bind (py_item learning ''content'') (py_prefix 60)) of
                       (Some t, Some c) \<Rightarrow>
                         st\<lparr>imported := imported st + 1,
                            printed := log @ [Stdout (Import_stored t c)]\<rparr>
                     | _ \<Rightarrow>
                         st\<lparr>imported := imported st + 1, errors := errors st + 1,
                            printed := log @ [failed]\<rparr>)
                  else if status = JStr ''duplicate'' then
                    (case (Option.bind (py_item result ''similarity'') py_format_float,
                           Option.bind (py_item learning ''content'') (py_prefix 40)) of
                       (Some sim, Some c) \<Rightarrow>
                         st\<lparr>duplicates := duplicates st + 1,
                            printed := log @ [Stdout (Import_duplicate sim c)]\<rparr>
                     | _ \<Rightarrow>
                         st\<lparr>duplicates := duplicates st + 1, errors := errors st + 1,
                            printed := log @ [failed]\<rparr>)
                  else st\<lparr>errors := errors st + 1,
                          printed := log @ [Stdout (Import_other line_num result)]\<rparr>))"





section \<open>Replies of the daemon, and the records of the data model\<close>

text \<open>
  What the daemon answers to a sequence of \<open>/store\<close> requests, issued one after the other
  after the requests \<open>sent\<close>.
\<close>

fun replies :: "world \<Rightarrow> json list \<Rightarrow> json list \<Rightarrow> json option list" where
  "replies w sent [] = []"
| "replies w sent (body # bodies) = daemon_store w sent body # replies w (sent @ [body]) bodies"

text \<open>\<open>result.get("status")\<close> of a reply; \<open>None\<close> when the request or the lookup raises.\<close>

definition reply_status :: "json option \<Rightarrow> json option" where
  "reply_status reply = Option.bind reply (\<lambda>result. py_get result ''status'')"

text \<open>The number of requests of a sequence that the daemon answers with status \<open>stored\<close>.\<close>

definition stored_count :: "world \<Rightarrow> json list \<Rightarrow> json list \<Rightarrow> nat" where
  "stored_count w sent bodies =
     length (filter (\<lambda>reply. reply_status reply = Some (JStr ''stored'')) (replies w sent bodies))"

text \<open>
  The words of the specification for a field: present and a non-empty text; and the
  records of its data model, whose \<open>type\<close> and \<open>content\<close> are texts when present.
\<close>

definition nonempty_text :: "(string \<times> json) list \<Rightarrow> string \<Rightarrow> bool" where
  "nonempty_text d k = (case map_of d k of Some (JStr s) \<Rightarrow> s \<noteq> [] | _ \<Rightarrow> False)"

definition text_or_absent :: "(string \<times> json) list \<Rightarrow> string \<Rightarrow> bool" where
  "text_or_absent d k = (case map_of d k of None \<Rightarrow> True | Some (JStr s) \<Rightarrow> True | _ \<Rightarrow> False)"




section \<open>A decoder for concrete runs\<close>

text \<open>
  \<open>json.loads\<close> is a field of \<open>world\<close>, so the general statements hold for every decoder.
  Concrete runs use the decoder below, which follows the scanner of Python's \<open>json\<close>
  module: whitespace is space, tab, line feed and carriage return; a number is an \<open>int\<close>
  unless it has a fraction or an exponent; a repeated key keeps its last value. The
  conversion of a float lexeme to a double is the parameter \<open>to_float\<close>, and an escape
  \<open>\uXXXX\<close> above 255 has no \<open>char\<close> and is refused.
\<close>

definition json_ws :: "char \<Rightarrow> bool" where
  "json_ws c = (c = CHR '' '' \<or> c = CHR 0x09 \<or> c = CHR 0x0A \<or> c = CHR 0x0D)"

definition skip_ws :: "string \<Rightarrow> string" where
  "skip_ws s = dropWhile json_ws s"

definition is_digit :: "char \<Rightarrow> bool" where
  "is_digit c = (48 \<le> (of_char c :: nat) \<and> (of_char c :: nat) \<le> 57)"

definition digits_value :: "string \<Rightarrow> int" where
  "digits_value ds = foldl (\<lambda>a c. 10 * a + (int (of_char c) - 48)) 0 ds"

definition hex_value :: "char \<Rightarrow> nat option" where
  "hex_value c =
     (let n = (of_char c :: nat)
      in if 48 \<le> n \<and> n \<le> 57 then Some (n - 48)
         else if 65 \<le> n \<and> n \<le> 70 then Some (n - 55)
         else if 97 \<le> n \<and> n \<le> 102 then Some (n - 87)
         else None)"

definition unescape :: "char \<Rightarrow> char option" where
  "unescape c =
     (if c = CHR 0x22 \<or> c = CHR 0x5C \<or> c = CHR ''/'' then Some c
      else if c = CHR ''b'' then Some (CHR 0x08)
      else if c = CHR ''f'' then Some (CHR 0x0C)
      else if c = CHR ''n'' then Some (CHR 0x0A)
      else if c = CHR ''r'' then Some (CHR 0x0D)
      else if c = CHR ''t'' then Some (CHR 0x09)
      else None)"

datatype scan_mode = Plain | Escaped | Hex nat nat

text \<open>The text after an opening quote: the decoded string and what follows the closing quote.\<close>

fun scan_string :: "scan_mode \<Rightarrow> string \<Rightarrow> string \<Rightarrow> (string \<times> string) option" where
  "scan_string m acc [] = None"
| "scan_string Plain acc (c # cs) =
     (if c = CHR 0x22 then Some (rev acc, cs)
      else if c = CHR 0x5C then scan_string Escaped acc cs
      else if (of_char c :: nat) < 32 then None
      else scan_string Plain (c # acc) cs)"
| "scan_string Escaped acc (c # cs) =
     (if c = CHR ''u'' then scan_string (Hex 4 0) acc cs
      else (case unescape c of
              None \<Rightarrow> None
            | Some x \<Rightarrow> scan_string Plain (x # acc) cs))"
| "scan_string (Hex k v) acc (c # cs) =
     (case hex_value c of
        None \<Rightarrow> None
      | Some h \<Rightarrow>
          if k \<le> 1
          then (if 16 * v + h < 256 then scan_string Plain (char_of (16 * v + h) # acc) cs
                else None)
          else scan_string (Hex (k - 1) (16 * v + h)) acc cs)"

text \<open>The number at the head of a text, by the pattern of the \<open>json\<close> scanner.\<close>

definition scan_number :: "(string \<Rightarrow> 64 word) \<Rightarrow> string \<Rightarrow> (json \<times> string) option" where
  "scan_number to_float s =
     (let sign = (if prefix ''-'' s then ''-'' else []);
          s1 = drop (length sign) s;
          ds = takeWhile is_digit s1;
          whole = (if prefix ''0'' ds then ''0'' else ds);
          s2 = drop (length whole) s1;
          fd = takeWhile is_digit (drop 1 s2);
          frac = (if prefix ''.'' s2 \<and> fd \<noteq> [] then ''.'' @ fd else []);
          s3 = drop (length frac) s2;
          mark = (if prefix ''e'' s3 \<or> prefix ''E'' s3 then take 1 s3 else []);
          s4 = drop (length mark) s3;
          esign = (if prefix ''+'' s4 \<or> prefix ''-'' s4 then take 1 s4 else []);
          ed = takeWhile is_digit (drop (length esign) s4);
          expo = (if mark \<noteq> [] \<and> ed \<noteq> [] then mark @ esign @ ed else []);
          rest = drop (length expo) s3
      in if whole = [] then None
         else if frac = [] \<and> expo = []
         then Some (JInt (if sign = [] then digits_value whole else - digits_value whole), rest)
         else Some (JFloat (to_float (sign @ whole @ frac @ expo)), rest))"

fun decode_value :: "(string \<Rightarrow> 64 word) \<Rightarrow> nat \<Rightarrow> string \<Rightarrow> (json \<times> string) option"
  and decode_items ::
    "(string \<Rightarrow> 64 word) \<Rightarrow> nat \<Rightarrow> json list \<Rightarrow> string \<Rightarrow> (json \<times> string) option"
  and decode_members ::
    "(string \<Rightarrow> 64 word) \<Rightarrow> nat \<Rightarrow> (string \<times> json) list \<Rightarrow> string \<Rightarrow> (json \<times> string) option"
where
  "decode_value to_float 0 s = None"
| "decode_value to_float (Suc n) s =
     (if prefix [CHR 0x22] s then
        (case scan_string Plain [] (drop 1 s) of
           None \<Rightarrow> None
         | Some (str, rest) \<Rightarrow> Some (JStr str, rest))
      else if prefix ''{'' s then
        (let rest = skip_ws (drop 1 s)
         in if prefix ''}'' rest then Some (JObj [], drop 1 rest)
            else decode_members to_float n [] rest)
      else if prefix ''['' s then
        (let rest = skip_ws (drop 1 s)
         in if prefix '']'' rest then Some (JArr [], drop 1 rest)
            else decode_items to_float n [] rest)
      else if prefix ''null'' s then Some (JNull, drop 4 s)
      else if prefix ''true'' s then Some (JBool True, drop 4 s)
      else if prefix ''false'' s then Some (JBool False, drop 5 s)
      else if prefix ''NaN'' s then Some (JFloat 0x7FF8000000000000, drop 3 s)
      else if prefix ''Infinity'' s then Some (JFloat 0x7FF0000000000000, drop 8 s)
      else if prefix ''-Infinity'' s then Some (JFloat 0xFFF0000000000000, drop 9 s)
      else scan_number to_float s)"
| "decode_items to_float 0 acc s = None"
| "decode_items to_float (Suc n) acc s =
     (case decode_value to_float n s of
        None \<Rightarrow> None
      | Some (v, rest) \<Rightarrow>
          (let rest = skip_ws rest
           in if prefix '']'' rest then Some (JArr (rev (v # acc)), drop 1 rest)
              else if prefix '','' rest
              then decode_items to_float n (v # acc) (skip_ws (drop 1 rest))
              else None))"
| "decode_members to_float 0 acc s = None"
| "decode_members to_float (Suc n) acc s =
     (if \<not> prefix [CHR 0x22] s then None
      else (case scan_string Plain [] (drop 1 s) of
              None \<Rightarrow> None
            | Some (k, rest) \<Rightarrow>
                (let rest = skip_ws rest
                 in if \<not> prefix '':'' rest then None
                    else (case decode_value to_float n (skip_ws (drop 1 rest)) of
                            None \<Rightarrow> None
                          | Some (v, rest) \<Rightarrow>
                              (let rest = skip_ws rest; acc = dict_set acc k v
                               in if prefix ''}'' rest then Some (JObj acc, drop 1 rest)
                                  else if prefix '','' rest
                                  then decode_members to_float n acc (skip_ws (drop 1 rest))
                                  else None)))))"

text \<open>The text without the whitespace at its two ends.\<close>

definition json_strip :: "string \<Rightarrow> string" where
  "json_strip s = rev (skip_ws (rev (skip_ws s)))"

text \<open>
  \<open>json.loads\<close>: one value between optional whitespace, so the value takes all the text
  between the whitespace at the two ends; \<open>None\<close> is \<open>JSONDecodeError\<close>. Every call
  consumes a character, so the length of the text is fuel enough.
\<close>

definition py_json_loads :: "(string \<Rightarrow> 64 word) \<Rightarrow> string \<Rightarrow> json option" where
  "py_json_loads to_float s =
     (let text = json_strip s
      in case decode_value to_float (Suc (length text)) text of
           None \<Rightarrow> None
         | Some (v, rest) \<Rightarrow> if rest = [] then Some v else None)"

text \<open>A text that is not empty and neither begins nor ends with a character that \<open>strip\<close> removes.\<close>

definition solid :: "string \<Rightarrow> bool" where
  "solid c = (c \<noteq> [] \<and> \<not> py_isspace (hd c) \<and> \<not> py_isspace (last c))"

section \<open>Concrete runs\<close>

text \<open>
  The decoder used in concrete runs (their texts contain no float), and a machine with no
  credential, no Ollama and no daemon; the other runs change single fields of it.
\<close>

definition example_loads :: "string \<Rightarrow> json option" where
  "example_loads = py_json_loads (\<lambda>lexeme. 0)"

definition offline :: world where
  "offline =
     \<lparr>json_loads = example_loads, json_error = (\<lambda>text. JSONDecodeError), api_key = None, anthropic_reply = (\<lambda>prompt. None),
      ollama_tags = None, ollama_generate = (\<lambda>model prompt. None),
      daemon_health = Health_connection_error, daemon_store = (\<lambda>sent body. None),
      daemon_stats = None\<rparr>"

definition two_models :: json where
  "two_models =
     JObj [(''models'',
            JArr [JObj [(''name'', JStr ''mistral:7b'')], JObj [(''name'', JStr ''llama3:8b'')]])]"

definition other_model :: json where
  "other_model = JObj [(''models'', JArr [JObj [(''name'', JStr ''phi3:mini'')]])]"

definition no_models :: json where
  "no_models = JObj [(''models'', JArr [])]"

text \<open>A remote API that answers every prompt with one text block.\<close>

definition anthropic_answer :: "string \<Rightarrow> json" where
  "anthropic_answer text =
     JObj [(''content'', JArr [JObj [(''type'', JStr ''text''), (''text'', JStr text)]])]"

definition with_anthropic :: "string \<Rightarrow> world \<Rightarrow> world" where
  "with_anthropic text w =
     w\<lparr>api_key := Some ''sk-test'', anthropic_reply := (\<lambda>prompt. Some (anthropic_answer text))\<rparr>"

text \<open>A healthy daemon whose replies follow a script, one entry for each request.\<close>

definition scripted :: "json option list \<Rightarrow> json list \<Rightarrow> json \<Rightarrow> json option" where
  "scripted script sent body =
     (if length sent < length script then script ! length sent else None)"

definition with_daemon :: "json option list \<Rightarrow> world \<Rightarrow> world" where
  "with_daemon script w =
     w\<lparr>daemon_health := Health_status 200, daemon_store := scripted script\<rparr>"

definition stored_reply :: "json option" where
  "stored_reply = Some (JObj [(''status'', JStr ''stored'')])"

definition duplicate_reply :: "json option" where
  "duplicate_reply =
     Some (JObj [(''status'', JStr ''duplicate''), (''similarity'', JFloat 0x3FEDC28F5C28F5C3)])"

text \<open>The candidates of the validator example, with one type outside the taxonomy.\<close>

definition four_candidates_text :: string where
  \<open>four_candidates_text =
     ''[{"type": "GOTCHA", "content": "x", "confidence": 7}, {"content": "y"}, {"type": "PATTERN", "content": ""}, {"type": "IDEA", "content": "z"}]''\<close>

definition four_candidates :: "(string \<times> json) list list" where
  "four_candidates =
     [[(''type'', JStr ''GOTCHA''), (''content'', JStr ''x''), (''confidence'', JInt 7)],
      [(''content'', JStr ''y'')],
      [(''type'', JStr ''PATTERN''), (''content'', JStr [])],
      [(''type'', JStr ''IDEA''), (''content'', JStr ''z'')]]"

definition four_world :: world where
  "four_world = with_daemon [stored_reply, stored_reply] (with_anthropic four_candidates_text offline)"

definition five_learnings_text :: string where
  \<open>five_learnings_text =
     ''[{"type": "GOTCHA", "content": "a"}, {"type": "PATTERN", "content": "b"}, {"type": "DECISION", "content": "c"}, {"type": "FAILURE", "content": "d"}, {"type": "PREFERENCE", "content": "e"}]''\<close>

definition five_learnings :: "(string \<times> json) list list" where
  "five_learnings =
     [[(''type'', JStr ''GOTCHA''), (''content'', JStr ''a'')],
      [(''type'', JStr ''PATTERN''), (''content'', JStr ''b'')],
      [(''type'', JStr ''DECISION''), (''content'', JStr ''c'')],
      [(''type'', JStr ''FAILURE''), (''content'', JStr ''d'')],
      [(''type'', JStr ''PREFERENCE''), (''content'', JStr ''e'')]]"

definition five_world :: world where
  "five_world =
     with_daemon [stored_reply, duplicate_reply, stored_reply, duplicate_reply, stored_reply]
       (with_anthropic five_learnings_text offline)"

definition duplicate_with :: "json \<Rightarrow> json option" where
  "duplicate_with sim = Some (JObj [(''status'', JStr ''duplicate''), (''similarity'', sim)])"

definition one_gotcha :: "(string \<times> json) list" where
  "one_gotcha = [(''type'', JStr ''GOTCHA''), (''content'', JStr ''x'')]"

definition empty_tally :: tally where
  "empty_tally = \<lparr>imported = 0, duplicates = 0, errors = 0, printed = [Net_health]\<rparr>"



definition empty_answer_world :: world where
  "empty_answer_world = with_anthropic ''[]'' offline"

definition unreachable_world :: world where
  "unreachable_world = with_anthropic four_candidates_text offline"

definition unhealthy_world :: world where
  "unhealthy_world = with_anthropic four_candidates_text (offline\<lparr>daemon_health := Health_status 503\<rparr>)"

definition prose_before :: string where
  "prose_before = ''Here are the learnings: ''"

definition prose_after :: string where
  "prose_after = '' Hope this helps.''"

definition prose_with_bracket :: string where
  "prose_with_bracket = ''Here [is] the list: ''"

definition quoted_fence_text :: string where
  \<open>quoted_fence_text = ''["'' @ fence @ ''"]''\<close>

definition local_model_world :: world where
  "local_model_world =
     offline\<lparr>ollama_tags := Some other_model,
             ollama_generate := (\<lambda>model prompt. Some (JObj [(''response'', JStr four_candidates_text)]))\<rparr>"

section \<open>Properties\<close>

subsection \<open>Choosing the Ollama model\<close>

lemma preferred_nonempty: "m \<in> set preferred \<Longrightarrow> m \<noteq> []"
  by (auto simp add: preferred_def)

lemma select_model_first_preferred:
  assumes "i < length preferred" "preferred ! i \<in> set available"
    "\<forall>j<i. preferred ! j \<notin> set available"
  shows "select_model available = Some (preferred ! i)"
proof -
  have "find (\<lambda>m. m \<in> set available) preferred = Some (preferred ! i)"
    using assms by (auto simp add: find_Some_iff)
  then show ?thesis by (simp add: select_model_def)
qed

lemma select_model_fallback:
  assumes "set preferred \<inter> set available = {}"
  shows "select_model available = (case available of [] \<Rightarrow> None | m # ms \<Rightarrow> Some m)"
proof -
  have "find (\<lambda>m. m \<in> set available) preferred = None"
    using assms by (auto simp add: find_None_iff)
  then show ?thesis by (simp add: select_model_def)
qed

lemma ollama_generates:
  assumes "ollama_tags w = Some r" "available_models r = Some available"
    "select_model available = Some m" "m \<noteq> []"
  shows "Net_generate m (EXTRACTION_PROMPT @ t) \<in> set (snd (extract_with_ollama w t))"
  using assms by (simp add: extract_with_ollama_def Let_def split: option.splits)

lemma ollama_no_models:
  assumes "ollama_tags w = Some r" "available_models r = Some available"
    "select_model available = None \<or> select_model available = Some []"
  shows "extract_with_ollama w t = (JNull, [Net_tags, Stderr No_models])"
  using assms by (auto simp add: extract_with_ollama_def)

text \<open>
  C9 (Ollama model selection): with the installed models read as line 101 does (the name
  up to the first colon), the provider selects the first of the five preferred names that
  is installed; when none of the five is installed it selects the first installed model,
  if there is one; and with no installed model it returns \<open>None\<close> after the listing
  request alone. The generation request names the selected model; a selected name that is
  the empty text counts as no selection.
\<close>

theorem ollama_model_selection:
  assumes "ollama_tags w = Some r" and "available_models r = Some available"
  shows "length preferred = 5 \<and>
    (i < 5 \<and> preferred ! i \<in> set available \<and> (\<forall>j<i. preferred ! j \<notin> set available) \<longrightarrow>
       select_model available = Some (preferred ! i) \<and>
       Net_generate (preferred ! i) (EXTRACTION_PROMPT @ t) \<in> set (snd (extract_with_ollama w t))) \<and>
    (set preferred \<inter> set available = {} \<and> available \<noteq> [] \<longrightarrow>
       select_model available = Some (hd available) \<and>
       (hd available \<noteq> [] \<longrightarrow>
          Net_generate (hd available) (EXTRACTION_PROMPT @ t) \<in> set (snd (extract_with_ollama w t))) \<and>
       (hd available = [] \<longrightarrow> extract_with_ollama w t = (JNull, [Net_tags, Stderr No_models]))) \<and>
    (available = [] \<longrightarrow>
       select_model available = None \<and>
       extract_with_ollama w t = (JNull, [Net_tags, Stderr No_models]))"
proof -
  have five: "length preferred = 5" by (simp add: preferred_def)
  have a: "select_model available = Some (preferred ! i) \<and>
       Net_generate (preferred ! i) (EXTRACTION_PROMPT @ t) \<in> set (snd (extract_with_ollama w t))"
    if h: "i < 5" "preferred ! i \<in> set available" "\<forall>j<i. preferred ! j \<notin> set available"
  proof -
    have s: "select_model available = Some (preferred ! i)"
      using h five by (simp add: select_model_first_preferred)
    have "preferred ! i \<noteq> []" using h five by (simp add: preferred_nonempty)
    with s show ?thesis using ollama_generates [OF assms s] by simp
  qed
  have b: "select_model available = Some (hd available) \<and>
       (hd available \<noteq> [] \<longrightarrow>
          Net_generate (hd available) (EXTRACTION_PROMPT @ t) \<in> set (snd (extract_with_ollama w t))) \<and>
       (hd available = [] \<longrightarrow> extract_with_ollama w t = (JNull, [Net_tags, Stderr No_models]))"
    if h: "set preferred \<inter> set available = {}" "available \<noteq> []"
  proof -
    have s: "select_model available = Some (hd available)"
      using h by (cases available) (simp_all add: select_model_fallback)
    show ?thesis using s ollama_generates [OF assms s] ollama_no_models [OF assms] by simp
  qed
  have c: "select_model available = None \<and>
       extract_with_ollama w t = (JNull, [Net_tags, Stderr No_models])" if h: "available = []"
  proof -
    have s: "select_model available = None" using h by (simp add: select_model_fallback)
    show ?thesis using s ollama_no_models [OF assms] by simp
  qed
  show ?thesis using five a b c by blast
qed

theorem ollama_model_selection_witness:
  "ollama_tags (offline\<lparr>ollama_tags := Some two_models\<rparr>) = Some two_models \<and>
   available_models two_models = Some [''mistral'', ''llama3''] \<and>
   select_model [''mistral'', ''llama3''] = Some ''llama3'' \<and>
   Net_generate ''llama3'' (EXTRACTION_PROMPT @ ''log'')
     \<in> set (snd (extract_with_ollama (offline\<lparr>ollama_tags := Some two_models\<rparr>) ''log'')) \<and>
   available_models other_model = Some [''phi3''] \<and>
   select_model [''phi3''] = Some ''phi3'' \<and>
   Net_generate ''phi3'' (EXTRACTION_PROMPT @ ''log'')
     \<in> set (snd (extract_with_ollama (offline\<lparr>ollama_tags := Some other_model\<rparr>) ''log'')) \<and>
   available_models no_models = Some [] \<and>
   extract_with_ollama (offline\<lparr>ollama_tags := Some no_models\<rparr>) ''log'' =
     (JNull, [Net_tags, Stderr No_models])"
proof -
  have t1: "ollama_tags (offline\<lparr>ollama_tags := Some two_models\<rparr>) = Some two_models"
    and t2: "ollama_tags (offline\<lparr>ollama_tags := Some other_model\<rparr>) = Some other_model"
    and t3: "ollama_tags (offline\<lparr>ollama_tags := Some no_models\<rparr>) = Some no_models"
    by simp_all
  have a1: "available_models two_models = Some [''mistral'', ''llama3'']"
    and a2: "available_models other_model = Some [''phi3'']"
    and a3: "available_models no_models = Some []"
    by (simp_all add: two_models_def other_model_def no_models_def available_models_def
        model_name_def)
  show ?thesis
    using t1 a1 a2 a3
      ollama_model_selection [OF t1 a1, of 0 "''log''"]
      ollama_model_selection [OF t2 a2, of 0 "''log''"]
      ollama_model_selection [OF t3 a3, of 0 "''log''"]
    by (simp add: preferred_def)
qed

subsection \<open>Bounding the transcript\<close>


text \<open>
  C3 (truncation): a transcript of at most 100,000 characters is passed on unchanged; a
  longer one becomes its first 50,000 characters, the truncation marker, and its last
  50,000 characters, so every over-length transcript yields a text of the same length,
  100,034 characters.
\<close>

theorem truncation_identity_and_bound:
  "(length t \<le> 100000 \<longrightarrow> truncate_transcript t = t) \<and>
   (length t > 100000 \<longrightarrow>
      truncate_transcript t =
        take 50000 t @ truncation_marker @ drop (length t - 50000) t \<and>
      drop (length t - 50000) t = rev (take 50000 (rev t)) \<and>
      length (truncate_transcript t) = 100034)"
  by (auto simp add: truncate_transcript_def max_chars_def half_def py_last_n_def
      truncation_marker_def rev_take)

theorem truncation_identity_and_bound_witness:
  "length ''abc'' \<le> 100000 \<and> truncate_transcript ''abc'' = ''abc'' \<and>
   length (replicate 100001 (CHR ''a'')) > 100000 \<and>
   truncate_transcript (replicate 100001 (CHR ''a'')) =
     replicate 50000 (CHR ''a'') @ truncation_marker @ replicate 50000 (CHR ''a'') \<and>
   length (truncate_transcript (replicate 100001 (CHR ''a''))) = 100034"
  using truncation_identity_and_bound [of "''abc''"]
    truncation_identity_and_bound [of "replicate 100001 (CHR ''a'')"]
  by (simp add: truncation_marker_def)

subsection \<open>Requests sent to the daemon\<close>

lemma store_calls_append: "store_calls (xs @ ys) = store_calls xs @ store_calls ys"
  by (simp add: store_calls_def List.map_filter_def)

lemma store_calls_simps [simp]:
  "store_calls [] = []"
  "store_calls (Net_store b # xs) = b # store_calls xs"
  "store_calls (Stderr m # xs) = store_calls xs"
  "store_calls (Stdout m # xs) = store_calls xs"
  "store_calls (Stdout_json v # xs) = store_calls xs"
  "store_calls (Net_health # xs) = store_calls xs"
  "store_calls (Net_tags # xs) = store_calls xs"
  "store_calls (Net_stats # xs) = store_calls xs"
  "store_calls (Net_anthropic p # xs) = store_calls xs"
  "store_calls (Net_generate model p # xs) = store_calls xs"
  by (simp_all add: store_calls_def List.map_filter_def)

lemma dict_set_other: "k \<noteq> k' \<Longrightarrow> map_of (dict_set d k' v) k = map_of d k"
  by (induction d) auto

lemma store_one_calls:
  "store_calls (snd (store_one w sid d st)) = store_calls (snd st) @ [attach_source sid d]"
  by (simp add: store_one_def Let_def attach_source_def store_calls_append
      split: option.splits)

lemma store_one_count:
  "fst (store_one w sid d st) =
     fst st + (if reply_status (daemon_store w (store_calls (snd st)) (attach_source sid d))
                    = Some (JStr ''stored'') then 1 else 0)"
  by (auto simp add: store_one_def Let_def attach_source_def reply_status_def
      split: option.splits)

lemma store_loop_objects:
  "fst (store_loop w sid (map JObj ds) st) =
     Inr (fst st + length (filter (\<lambda>r. reply_status r = Some (JStr ''stored''))
                      (replies w (store_calls (snd st)) (map (attach_source sid) (filter eligible ds))))) \<and>
   store_calls (snd (store_loop w sid (map JObj ds) st)) =
     store_calls (snd st) @ map (attach_source sid) (filter eligible ds)"
proof (induction ds arbitrary: st)
  case Nil
  then show ?case by simp
next
  case (Cons d ds)
  show ?case
  proof (cases "eligible d")
    case True
    then show ?thesis
      using Cons.IH [of "store_one w sid d st"]
      by (simp add: eligible_def store_one_calls store_one_count)
  next
    case False
    then show ?thesis using Cons.IH [of st] by (auto simp add: eligible_def)
  qed
qed

lemma store_learnings_objects:
  "fst (store_learnings w (JArr (map JObj ds)) sid log) =
     Inr (length (filter (\<lambda>r. reply_status r = Some (JStr ''stored''))
            (replies w (store_calls log) (map (attach_source sid) (filter eligible ds))))) \<and>
   store_calls (snd (store_learnings w (JArr (map JObj ds)) sid log)) =
     store_calls log @ map (attach_source sid) (filter eligible ds)"
  using store_loop_objects [of w sid ds "(0, log)"] by (simp add: store_learnings_def)

lemma anthropic_no_store: "store_calls (snd (extract_with_anthropic w t)) = []"
  by (simp add: extract_with_anthropic_def Let_def split: option.splits)

lemma ollama_no_store: "store_calls (snd (extract_with_ollama w t)) = []"
  by (simp add: extract_with_ollama_def Let_def split: option.splits)

lemma extract_no_store: "store_calls (snd (extract_learnings w t)) = []"
  by (simp add: extract_learnings_def Let_def store_calls_append anthropic_no_store
      ollama_no_store)

lemma main_stores:
  assumes "fst (extract_learnings w (truncate_transcript t)) = JArr (map JObj ds)"
    and "ds \<noteq> []" and "daemon_health w = Health_status 200"
  shows "exit_code (main w t sid) = 0 \<and>
    last (events (main w t sid)) =
      Stderr (Stored_summary (stored_count w [] (map (attach_source sid) (filter eligible ds))) (length ds)) \<and>
    store_calls (events (main w t sid)) = map (attach_source sid) (filter eligible ds)"
proof -
  define log where
    "log = Stderr Extracting # snd (extract_learnings w (truncate_transcript t)) @
             [Stderr (Extracted (length ds)), Net_health]"
  have calls: "store_calls log = []"
    by (simp add: log_def store_calls_append extract_no_store)
  obtain r l where rl: "store_learnings w (JArr (map JObj ds)) sid log = (r, l)"
    by (cases "store_learnings w (JArr (map JObj ds)) sid log")
  have r: "r = Inr (stored_count w [] (map (attach_source sid) (filter eligible ds)))"
    and l: "store_calls l = map (attach_source sid) (filter eligible ds)"
    using store_learnings_objects [of w ds sid log] rl calls by (simp_all add: stored_count_def)
  have "main w t sid =
      Exit 0 (l @ [Stderr (Stored_summary (stored_count w [] (map (attach_source sid) (filter eligible ds))) (length ds))])"
    using assms rl r by (simp add: main_def Let_def store_phase_def log_def)
  then show ?thesis using l by (simp add: store_calls_append)
qed

lemma eligible_present:
  "eligible d \<longleftrightarrow>
     (\<exists>ty c. map_of d ''type'' = Some ty \<and> truthy ty \<and> map_of d ''content'' = Some c \<and> truthy c)"
  by (auto simp add: eligible_def dict_get_def split: option.splits)

lemma eligible_text:
  assumes "text_or_absent d ''type''" "text_or_absent d ''content''"
  shows "eligible d \<longleftrightarrow> nonempty_text d ''type'' \<and> nonempty_text d ''content''"
  using assms
  by (auto simp add: eligible_def dict_get_def text_or_absent_def nonempty_text_def
      split: option.splits json.splits)

lemma attach_source_item:
  "k \<noteq> ''session_source'' \<Longrightarrow> py_item (attach_source sid d) k = map_of d k"
  by (simp add: attach_source_def dict_set_other)

lemma anthropic_text_answer: "anthropic_text (anthropic_answer text) = Some text"
  by (simp add: anthropic_text_def anthropic_answer_def)

lemma with_anthropic_extract:
  assumes "strip_fence text = Some text'" "json_loads w text' = Some v" "v \<noteq> JNull"
  shows "extract_learnings (with_daemon script (with_anthropic text w)) t =
     (v, [Net_anthropic (EXTRACTION_PROMPT @ t)])"
  using assms
  by (simp add: extract_learnings_def extract_with_anthropic_def anthropic_decode_def
      with_daemon_def with_anthropic_def anthropic_text_answer Let_def)







subsection \<open>The validator\<close>

lemma w4_decode: "example_loads four_candidates_text = Some (JArr (map JObj four_candidates))"
  by code_simp

lemma w4_fence: "strip_fence four_candidates_text = Some four_candidates_text"
  by code_simp

lemma w4_extract: "fst (extract_learnings four_world (truncate_transcript ''log'')) = JArr (map JObj four_candidates)"
  unfolding four_world_def
  by (subst with_anthropic_extract [OF w4_fence]) (simp_all add: offline_def w4_decode)

lemma w4_health: "daemon_health four_world = Health_status 200"
  by (simp add: four_world_def with_daemon_def)

lemma w4_filter: "map (attach_source ''s1'') (filter eligible four_candidates) =
   [JObj [(''type'', JStr ''GOTCHA''), (''content'', JStr ''x''), (''confidence'', JInt 7), (''session_source'', JStr ''s1'')],
    JObj [(''type'', JStr ''IDEA''), (''content'', JStr ''z''), (''session_source'', JStr ''s1'')]]"
  by code_simp

text \<open>
  C4 (validator filtering): of a decoded list of records, the requests sent to \<open>/store\<close>
  are exactly the records whose \<open>type\<close> and \<open>content\<close> are both present with a true
  Python value, in their order, each with \<open>session_source\<close> attached. For records whose
  \<open>type\<close> and \<open>content\<close> are texts when present this means both present and non-empty:
  a record without \<open>type\<close> or with the empty \<open>content\<close> is dropped. No other test is
  made, and every field but \<open>session_source\<close> (the type, the confidence) is sent as it
  was decoded.
\<close>

theorem validator_filtering:
  "store_calls (snd (store_learnings w (JArr (map JObj ds)) sid log)) =
     store_calls log @ map (attach_source sid) (filter eligible ds) \<and>
   (fst (extract_learnings w (truncate_transcript t)) = JArr (map JObj ds) \<and> ds \<noteq> [] \<and>
    daemon_health w = Health_status 200 \<longrightarrow>
      store_calls (events (main w t sid)) = map (attach_source sid) (filter eligible ds)) \<and>
   (eligible d \<longleftrightarrow>
      (\<exists>ty c. map_of d ''type'' = Some ty \<and> truthy ty \<and>
              map_of d ''content'' = Some c \<and> truthy c)) \<and>
   (text_or_absent d ''type'' \<and> text_or_absent d ''content'' \<longrightarrow>
      (eligible d \<longleftrightarrow> nonempty_text d ''type'' \<and> nonempty_text d ''content'')) \<and>
   (k \<noteq> ''session_source'' \<longrightarrow> py_item (attach_source sid d) k = map_of d k)"
  using store_learnings_objects [of w ds sid log] main_stores [of w t ds sid]
    eligible_present [of d] eligible_text [of d] attach_source_item [of k sid d]
  by blast

theorem validator_filtering_witness:
  "fst (extract_learnings four_world (truncate_transcript ''log'')) = JArr (map JObj four_candidates) \<and>
   four_candidates \<noteq> [] \<and> daemon_health four_world = Health_status 200 \<and>
   store_calls (events (main four_world ''log'' ''s1'')) =
     [JObj [(''type'', JStr ''GOTCHA''), (''content'', JStr ''x''), (''confidence'', JInt 7),
            (''session_source'', JStr ''s1'')],
      JObj [(''type'', JStr ''IDEA''), (''content'', JStr ''z''), (''session_source'', JStr ''s1'')]] \<and>
   text_or_absent (four_candidates ! 2) ''type'' \<and> text_or_absent (four_candidates ! 2) ''content'' \<and>
   \<not> eligible (four_candidates ! 2) \<and>
   ''confidence'' \<noteq> ''session_source'' \<and>
   py_item (attach_source ''s1'' (four_candidates ! 0)) ''confidence'' = Some (JInt 7)"
proof -
  have ne: "four_candidates \<noteq> []" by (simp add: four_candidates_def)
  have t: "text_or_absent (four_candidates ! 2) ''type'' \<and> text_or_absent (four_candidates ! 2) ''content''"
    by (simp add: four_candidates_def text_or_absent_def)
  have n: "\<not> (nonempty_text (four_candidates ! 2) ''type'' \<and> nonempty_text (four_candidates ! 2) ''content'')"
    by (simp add: four_candidates_def nonempty_text_def)
  have c: "map_of (four_candidates ! 0) ''confidence'' = Some (JInt 7)"
    by (simp add: four_candidates_def)
  have k: "''confidence'' \<noteq> ''session_source''" by simp
  have s: "store_calls (events (main four_world ''log'' ''s1'')) =
     [JObj [(''type'', JStr ''GOTCHA''), (''content'', JStr ''x''), (''confidence'', JInt 7),
            (''session_source'', JStr ''s1'')],
      JObj [(''type'', JStr ''IDEA''), (''content'', JStr ''z''), (''session_source'', JStr ''s1'')]]"
    using validator_filtering [of four_world four_candidates "''s1''" "[]" "''log''"
        "four_candidates ! 2" "''confidence''"] w4_extract ne w4_health w4_filter
    by simp
  have e: "\<not> eligible (four_candidates ! 2)"
    using validator_filtering [of four_world four_candidates "''s1''" "[]" "''log''"
        "four_candidates ! 2" "''confidence''"] t n
    by blast
  have p: "py_item (attach_source ''s1'' (four_candidates ! 0)) ''confidence'' = Some (JInt 7)"
    using validator_filtering [of four_world four_candidates "''s1''" "[]" "''log''"
        "four_candidates ! 0" "''confidence''"] k c
    by simp
  show ?thesis
    using w4_extract ne w4_health s t e k p by blast
qed

subsection \<open>Counting what was stored\<close>

lemma stored_count_step:
  "stored_count w sent (body # bodies) =
     (if reply_status (daemon_store w sent body) = Some (JStr ''stored'') then 1 else 0) +
     stored_count w (sent @ [body]) bodies"
  by (simp add: stored_count_def)

lemma w5_decode: "example_loads five_learnings_text = Some (JArr (map JObj five_learnings))"
  by code_simp

lemma w5_fence: "strip_fence five_learnings_text = Some five_learnings_text"
  by code_simp

lemma w5_extract:
  "fst (extract_learnings five_world (truncate_transcript ''log'')) = JArr (map JObj five_learnings)"
  unfolding five_world_def
  by (subst with_anthropic_extract [OF w5_fence]) (simp_all add: offline_def w5_decode)

lemma w5_health: "daemon_health five_world = Health_status 200"
  by (simp add: five_world_def with_daemon_def)

lemma w5_count:
  "stored_count five_world [] (map (attach_source ''s1'') (filter eligible five_learnings)) = 3"
  by code_simp

text \<open>
  C7 (ingestion counting): for every list of records, the count that \<open>store_learnings\<close>
  returns is the number of its requests that the daemon answered with status \<open>stored\<close>.
  A reply with another status (a duplicate among them) and a request or a reply that
  raises add nothing, and none of them ends the loop: every eligible record is sent and
  gets its reply, and the run reports that count out of the number of records.
\<close>

theorem ingestion_counting:
  "fst (store_learnings w (JArr (map JObj ds)) sid log) =
     Inr (stored_count w (store_calls log) (map (attach_source sid) (filter eligible ds))) \<and>
   store_calls (snd (store_learnings w (JArr (map JObj ds)) sid log)) =
     store_calls log @ map (attach_source sid) (filter eligible ds) \<and>
   stored_count w sent [] = 0 \<and>
   stored_count w sent (body # bodies) =
     (if reply_status (daemon_store w sent body) = Some (JStr ''stored'') then 1 else 0) +
     stored_count w (sent @ [body]) bodies \<and>
   (fst (extract_learnings w (truncate_transcript t)) = JArr (map JObj ds) \<and> ds \<noteq> [] \<and>
    daemon_health w = Health_status 200 \<longrightarrow>
      exit_code (main w t sid) = 0 \<and>
      last (events (main w t sid)) =
        Stderr (Stored_summary
                  (stored_count w [] (map (attach_source sid) (filter eligible ds))) (length ds)))"
  using store_learnings_objects [of w ds sid log] main_stores [of w t ds sid]
    stored_count_step [of w sent body bodies]
  by (simp add: stored_count_def)

theorem ingestion_counting_witness:
  "fst (extract_learnings five_world (truncate_transcript ''log'')) = JArr (map JObj five_learnings) \<and>
   five_learnings \<noteq> [] \<and> daemon_health five_world = Health_status 200 \<and>
   exit_code (main five_world ''log'' ''s1'') = 0 \<and>
   last (events (main five_world ''log'' ''s1'')) = Stderr (Stored_summary 3 5)"
proof -
  have ne: "five_learnings \<noteq> []" and len: "length five_learnings = 5"
    by (simp_all add: five_learnings_def)
  show ?thesis
    using ingestion_counting [of five_world five_learnings "''s1''" "[]" "[]" JNull "[]" "''log''"]
      w5_extract ne len w5_health w5_count
    by simp
qed

subsection \<open>Duplicate replies, and the field check of the importer\<close>

lemma dict_get_attach:
  "k \<noteq> ''session_source'' \<Longrightarrow> dict_get (dict_set d ''session_source'' v) k = dict_get d k"
  by (simp add: dict_get_def dict_set_other)

text \<open>
  C8 (duplicate reporting): a reply with status \<open>duplicate\<close> adds nothing to the count of
  either script. The importer prints the similarity of the reply with the first 40
  characters of the content; the line that \<open>store_learnings\<close> prints holds those
  characters alone, whatever similarity the daemon supplied.
\<close>

theorem duplicate_line_omits_similarity:
  assumes "daemon_store w (store_calls (snd st)) (attach_source sid d) = Some (JObj reply)"
    and "daemon_store w (store_calls (printed ta)) (JObj d) = Some (JObj reply)"
    and "map_of reply ''status'' = Some (JStr ''duplicate'')"
    and "map_of reply ''similarity'' = Some (JFloat sim)"
    and "map_of d ''content'' = Some (JStr c)"
  shows "store_one w sid d st =
      (fst st, snd st @ [Net_store (attach_source sid d),
                         Stderr (Duplicate_line (JStr (take 40 c)))]) \<and>
    import_store w n (JObj d) ta =
      ta\<lparr>duplicates := duplicates ta + 1,
         printed := printed ta @ [Net_store (JObj d),
                                  Stdout (Import_duplicate (JFloat sim) (JStr (take 40 c)))]\<rparr>"
proof -
  have c: "dict_get (dict_set d ''session_source'' (JStr sid)) ''content'' = JStr c"
    using assms(5) by (simp add: dict_get_attach) (simp add: dict_get_def)
  have a: "store_one w sid d st =
      (fst st, snd st @ [Net_store (attach_source sid d),
                         Stderr (Duplicate_line (JStr (take 40 c)))])"
    using assms(1,3) c
    by (simp add: store_one_def Let_def attach_source_def [symmetric] dict_get_def)
  have b: "import_store w n (JObj d) ta =
      ta\<lparr>duplicates := duplicates ta + 1,
         printed := printed ta @ [Net_store (JObj d),
                                  Stdout (Import_duplicate (JFloat sim) (JStr (take 40 c)))]\<rparr>"
    using assms(2-5) by (simp add: import_store_def Let_def dict_get_def)
  show ?thesis using a b by simp
qed

theorem duplicate_line_omits_similarity_witness:
  "store_one (offline\<lparr>daemon_store := (\<lambda>sent body. duplicate_with (JFloat 0x3FEDC28F5C28F5C3))\<rparr>)
      ''s1'' one_gotcha (0, []) =
     (0, [Net_store (JObj [(''type'', JStr ''GOTCHA''), (''content'', JStr ''x''),
                           (''session_source'', JStr ''s1'')]),
          Stderr (Duplicate_line (JStr ''x''))]) \<and>
   store_one (offline\<lparr>daemon_store := (\<lambda>sent body. duplicate_with (JFloat 0x3FE0000000000000))\<rparr>)
      ''s1'' one_gotcha (0, []) =
     (0, [Net_store (JObj [(''type'', JStr ''GOTCHA''), (''content'', JStr ''x''),
                           (''session_source'', JStr ''s1'')]),
          Stderr (Duplicate_line (JStr ''x''))]) \<and>
   printed (import_store
       (offline\<lparr>daemon_store := (\<lambda>sent body. duplicate_with (JFloat 0x3FEDC28F5C28F5C3))\<rparr>)
       1 (JObj one_gotcha) empty_tally) =
     [Net_health, Net_store (JObj one_gotcha),
      Stdout (Import_duplicate (JFloat 0x3FEDC28F5C28F5C3) (JStr ''x''))]"
proof -
  let ?w = "\<lambda>x. offline\<lparr>daemon_store := (\<lambda>sent body. duplicate_with (JFloat x))\<rparr>"
  let ?r = "\<lambda>x. [(''status'', JStr ''duplicate''), (''similarity'', JFloat x)]"
  have h1: "daemon_store (?w x) (store_calls (snd (0::nat, []::event list))) (attach_source ''s1'' one_gotcha)
      = Some (JObj (?r x))" for x
    by (simp add: duplicate_with_def)
  have h2: "daemon_store (?w x) (store_calls (printed empty_tally)) (JObj one_gotcha) = Some (JObj (?r x))" for x
    by (simp add: duplicate_with_def)
  have h3: "map_of (?r x) ''status'' = Some (JStr ''duplicate'')" for x by simp
  have h4: "map_of (?r x) ''similarity'' = Some (JFloat x)" for x by simp
  have h5: "map_of one_gotcha ''content'' = Some (JStr ''x'')" by (simp add: one_gotcha_def)
  show ?thesis
    using
      duplicate_line_omits_similarity [OF h1 [of "0x3FEDC28F5C28F5C3"] h2 [of "0x3FEDC28F5C28F5C3"]
        h3 [of "0x3FEDC28F5C28F5C3"] h4 [of "0x3FEDC28F5C28F5C3"] h5, where n = 1]
      duplicate_line_omits_similarity [OF h1 [of "0x3FE0000000000000"] h2 [of "0x3FE0000000000000"]
        h3 [of "0x3FE0000000000000"] h4 [of "0x3FE0000000000000"] h5, where n = 1]
    by (simp add: attach_source_def one_gotcha_def empty_tally_def)
qed





subsection \<open>The order of the providers\<close>

lemma stdout_dumps_append: "stdout_dumps (xs @ ys) = stdout_dumps xs @ stdout_dumps ys"
  by (simp add: stdout_dumps_def List.map_filter_def)

lemma stdout_dumps_simps [simp]:
  "stdout_dumps [] = []"
  "stdout_dumps (Stdout_json v # xs) = v # stdout_dumps xs"
  "stdout_dumps (Net_store b # xs) = stdout_dumps xs"
  "stdout_dumps (Stderr m # xs) = stdout_dumps xs"
  "stdout_dumps (Stdout m # xs) = stdout_dumps xs"
  "stdout_dumps (Net_health # xs) = stdout_dumps xs"
  "stdout_dumps (Net_tags # xs) = stdout_dumps xs"
  "stdout_dumps (Net_stats # xs) = stdout_dumps xs"
  "stdout_dumps (Net_anthropic p # xs) = stdout_dumps xs"
  "stdout_dumps (Net_generate model p # xs) = stdout_dumps xs"
  by (simp_all add: stdout_dumps_def List.map_filter_def)

lemma anthropic_quiet:
  "stdout_dumps (snd (extract_with_anthropic w t)) = [] \<and>
   Stderr No_llm \<notin> set (snd (extract_with_anthropic w t)) \<and>
   Net_health \<notin> set (snd (extract_with_anthropic w t))"
  by (simp add: extract_with_anthropic_def Let_def split: option.splits)

lemma ollama_quiet:
  "stdout_dumps (snd (extract_with_ollama w t)) = [] \<and>
   Stderr No_llm \<notin> set (snd (extract_with_ollama w t)) \<and>
   Net_health \<notin> set (snd (extract_with_ollama w t))"
  by (simp add: extract_with_ollama_def Let_def split: option.splits)

lemma extract_quiet:
  "stdout_dumps (snd (extract_learnings w t)) = [] \<and>
   Stderr No_llm \<notin> set (snd (extract_learnings w t)) \<and>
   Net_health \<notin> set (snd (extract_learnings w t))"
  using anthropic_quiet [of w t] ollama_quiet [of w t]
  by (simp add: extract_learnings_def Let_def stdout_dumps_append)

lemma store_one_extends:
  "\<exists>ext. snd (store_one w sid d st) = snd st @ ext \<and> Stderr No_llm \<notin> set ext"
  by (simp add: store_one_def Let_def split: option.splits)

lemma store_loop_extends:
  "\<exists>ext. snd (store_loop w sid xs st) = snd st @ ext \<and> Stderr No_llm \<notin> set ext"
proof (induction xs arbitrary: st)
  case Nil
  then show ?case by simp
next
  case (Cons x xs)
  show ?case
  proof (cases x)
    case (JObj d)
    show ?thesis
    proof (cases "\<not> truthy (dict_get d ''type'') \<or> \<not> truthy (dict_get d ''content'')")
      case True
      then show ?thesis using Cons.IH [of st] JObj by auto
    next
      case False
      obtain e1 where e1: "snd (store_one w sid d st) = snd st @ e1" "Stderr No_llm \<notin> set e1"
        using store_one_extends [of w sid d st] by blast
      obtain e2 where e2: "snd (store_loop w sid xs (store_one w sid d st)) =
          snd (store_one w sid d st) @ e2" "Stderr No_llm \<notin> set e2"
        using Cons.IH [of "store_one w sid d st"] by blast
      have "snd (store_loop w sid (x # xs) st) = snd st @ (e1 @ e2)"
        using False JObj e1 e2 by simp
      moreover have "Stderr No_llm \<notin> set (e1 @ e2)" using e1 e2 by simp
      ultimately show ?thesis by blast
    qed
  qed simp_all
qed

lemma store_learnings_extends:
  "\<exists>ext. snd (store_learnings w v sid log) = log @ ext \<and> Stderr No_llm \<notin> set ext"
  using store_loop_extends [of w sid _ "(0, log)"]
  by (simp add: store_learnings_def split: option.splits)

lemma store_phase_extends:
  "\<exists>ext. events (store_phase w v sid log) = log @ ext \<and> Stderr No_llm \<notin> set ext \<and>
     (py_len v \<noteq> None \<longrightarrow> Net_health \<in> set ext)"
proof (cases "py_len v")
  case None
  then show ?thesis by (simp add: store_phase_def)
next
  case (Some n)
  let ?log = "log @ [Stderr (Extracted n), Net_health]"
  obtain r l where rl: "store_learnings w v sid ?log = (r, l)"
    by (cases "store_learnings w v sid ?log")
  obtain ext where ext: "l = ?log @ ext" "Stderr No_llm \<notin> set ext"
    using store_learnings_extends [of w v sid ?log] rl by auto
  show ?thesis
    using Some rl ext
    by (cases "daemon_health w"; cases r) (simp_all add: store_phase_def Let_def)
qed

lemma main_no_llm_iff:
  "Stderr No_llm \<in> set (events (main w t sid)) \<longleftrightarrow>
     fst (extract_learnings w (truncate_transcript t)) = JNull"
proof -
  let ?x = "extract_learnings w (truncate_transcript t)"
  obtain ext where ext:
    "events (store_phase w (fst ?x) sid (Stderr Extracting # snd ?x)) =
       (Stderr Extracting # snd ?x) @ ext" "Stderr No_llm \<notin> set ext"
    using store_phase_extends [of w "fst ?x" sid "Stderr Extracting # snd ?x"] by blast
  show ?thesis
    using ext extract_quiet [of w "truncate_transcript t"]
    by (simp add: main_def Let_def)
qed

lemma main_fatal:
  assumes "fst (extract_learnings w (truncate_transcript t)) = JNull"
  shows "exit_code (main w t sid) = 1 \<and> store_calls (events (main w t sid)) = [] \<and>
    stdout_dumps (events (main w t sid)) = [] \<and> Net_health \<notin> set (events (main w t sid))"
  using assms extract_quiet [of w "truncate_transcript t"] extract_no_store [of w "truncate_transcript t"]
  by (simp add: main_def Let_def store_calls_append stdout_dumps_append)

lemma main_empty:
  assumes "fst (extract_learnings w (truncate_transcript t)) = JArr []"
  shows "exit_code (main w t sid) = 0 \<and> store_calls (events (main w t sid)) = [] \<and>
    stdout_dumps (events (main w t sid)) = [] \<and> Net_health \<notin> set (events (main w t sid))"
  using assms extract_quiet [of w "truncate_transcript t"] extract_no_store [of w "truncate_transcript t"]
  by (simp add: main_def Let_def store_calls_append stdout_dumps_append)

lemma main_list_probe:
  assumes "fst (extract_learnings w (truncate_transcript t)) = JArr xs"
    and "exit_code (main w t sid) \<noteq> 0"
  shows "Net_health \<in> set (events (main w t sid))"
proof -
  let ?x = "extract_learnings w (truncate_transcript t)"
  have ne: "xs \<noteq> []" using assms main_empty [of w t sid] by auto
  obtain ext where ext:
    "events (store_phase w (JArr xs) sid (Stderr Extracting # snd ?x)) =
       (Stderr Extracting # snd ?x) @ ext" "Net_health \<in> set ext"
    using store_phase_extends [of w "JArr xs" sid "Stderr Extracting # snd ?x"] by auto
  show ?thesis using assms(1) ne ext by (simp add: main_def Let_def)
qed

lemma extract_learnings_order:
  "extract_learnings w t =
     (if fst (extract_with_anthropic w t) = JNull
      then (fst (extract_with_ollama w t),
            snd (extract_with_anthropic w t) @ Stderr Anthropic_unavailable #
            snd (extract_with_ollama w t))
      else extract_with_anthropic w t)"
  by (simp add: extract_learnings_def Let_def)

lemma main_starts:
  "\<exists>rest. events (main w t sid) =
     Stderr Extracting # snd (extract_learnings w (truncate_transcript t)) @ rest"
proof -
  let ?x = "extract_learnings w (truncate_transcript t)"
  obtain ext where
    "events (store_phase w (fst ?x) sid (Stderr Extracting # snd ?x)) =
       (Stderr Extracting # snd ?x) @ ext"
    using store_phase_extends [of w "fst ?x" sid "Stderr Extracting # snd ?x"] by blast
  then show ?thesis by (simp add: main_def Let_def)
qed

lemma with_anthropic_alone:
  assumes "strip_fence text = Some text'" "json_loads w text' = Some v" "v \<noteq> JNull"
  shows "extract_learnings (with_anthropic text w) t =
     (v, [Net_anthropic (EXTRACTION_PROMPT @ t)])"
  using assms
  by (simp add: extract_learnings_def extract_with_anthropic_def anthropic_decode_def
      with_anthropic_def anthropic_text_answer Let_def)

lemma empty_answer_extract:
  "extract_learnings empty_answer_world (truncate_transcript ''log'') =
     (JArr [], [Net_anthropic (EXTRACTION_PROMPT @ truncate_transcript ''log'')])"
proof -
  have f: "strip_fence ''[]'' = Some ''[]''" by code_simp
  have d: "example_loads ''[]'' = Some (JArr [])" by code_simp
  show ?thesis
    unfolding empty_answer_world_def
    by (rule with_anthropic_alone [OF f]) (simp_all add: offline_def d)
qed

lemma unreachable_extract:
  "extract_learnings unreachable_world (truncate_transcript ''log'') =
     (JArr (map JObj four_candidates),
      [Net_anthropic (EXTRACTION_PROMPT @ truncate_transcript ''log'')])"
  unfolding unreachable_world_def
  by (rule with_anthropic_alone [OF w4_fence]) (simp_all add: offline_def w4_decode)

lemma unhealthy_extract:
  "extract_learnings unhealthy_world (truncate_transcript ''log'') =
     (JArr (map JObj four_candidates),
      [Net_anthropic (EXTRACTION_PROMPT @ truncate_transcript ''log'')])"
  unfolding unhealthy_world_def
  by (rule with_anthropic_alone [OF w4_fence]) (simp_all add: offline_def w4_decode)

lemma four_candidates_truthy: "four_candidates \<noteq> [] \<and> length four_candidates = 4"
  by (simp add: four_candidates_def)

lemma unreachable_run:
  "main unreachable_world ''log'' ''s1'' =
     Exit 1 [Stderr Extracting, Net_anthropic (EXTRACTION_PROMPT @ truncate_transcript ''log''),
             Stderr (Extracted 4), Net_health, Stderr Daemon_unreachable,
             Stdout_json (JArr (map JObj four_candidates))]"
proof -
  have h: "daemon_health unreachable_world = Health_connection_error"
    by (simp add: unreachable_world_def with_anthropic_def offline_def)
  show ?thesis
    using unreachable_extract h four_candidates_truthy
    by (simp add: main_def Let_def store_phase_def)
qed

lemma unhealthy_run:
  "main unhealthy_world ''log'' ''s1'' =
     Exit 1 [Stderr Extracting, Net_anthropic (EXTRACTION_PROMPT @ truncate_transcript ''log''),
             Stderr (Extracted 4), Net_health, Stderr Daemon_unhealthy,
             Stdout_json (JArr (map JObj four_candidates)), Stderr Daemon_unreachable,
             Stdout_json (JArr (map JObj four_candidates))]"
proof -
  have h: "daemon_health unhealthy_world = Health_status 503"
    by (simp add: unhealthy_world_def with_anthropic_def)
  show ?thesis
    using unhealthy_extract h four_candidates_truthy
    by (simp add: main_def Let_def store_phase_def)
qed

lemma empty_answer_run:
  "main empty_answer_world ''log'' ''s1'' =
     Exit 0 [Stderr Extracting, Net_anthropic (EXTRACTION_PROMPT @ truncate_transcript ''log''),
             Stderr No_learnings]"
  using empty_answer_extract by (simp add: main_def Let_def)

subsection \<open>When the daemon cannot be reached\<close>

lemma main_degraded:
  assumes "fst (extract_learnings w (truncate_transcript t)) = JArr xs" and "xs \<noteq> []"
    and "daemon_health w \<noteq> Health_status 200"
  shows "exit_code (main w t sid) = 1 \<and> store_calls (events (main w t sid)) = [] \<and>
    stdout_dumps (events (main w t sid)) =
      (case daemon_health w of Health_status code \<Rightarrow> [JArr xs, JArr xs] | _ \<Rightarrow> [JArr xs])"
  using assms extract_quiet [of w "truncate_transcript t"]
    extract_no_store [of w "truncate_transcript t"]
  by (cases "daemon_health w")
    (simp_all add: main_def Let_def store_phase_def store_calls_append stdout_dumps_append)

subsection \<open>Prose around the array of an Ollama response\<close>

lemma lstrip_keeps:
  assumes "\<not> py_isspace a"
  shows "py_lstrip (P @ a # R) = py_lstrip P @ a # R"
  using assms by (simp add: py_lstrip_def dropWhile_append)

lemma rstrip_keeps:
  assumes "\<not> py_isspace z"
  shows "py_rstrip (L @ z # Q) = L @ z # py_rstrip Q"
  using assms by (simp add: py_rstrip_def dropWhile_append)

lemma strip_keeps:
  assumes "\<not> py_isspace a" "\<not> py_isspace z"
  shows "py_strip (P @ a # B @ z # Q) = py_lstrip P @ a # B @ z # py_rstrip Q"
proof -
  have "py_lstrip (P @ a # B @ z # Q) = py_lstrip P @ a # B @ z # Q"
    using assms(1) by (rule lstrip_keeps)
  moreover have "py_rstrip ((py_lstrip P @ a # B) @ z # Q) = (py_lstrip P @ a # B) @ z # py_rstrip Q"
    using assms(2) by (rule rstrip_keeps)
  ultimately show ?thesis by (simp add: py_strip_def)
qed

lemma lstrip_subset: "set (py_lstrip s) \<subseteq> set s"
  by (auto simp add: py_lstrip_def dest: set_dropWhileD)

lemma rstrip_subset: "set (py_rstrip s) \<subseteq> set s"
  by (auto simp add: py_rstrip_def dest: set_dropWhileD)

lemma find_first:
  assumes "c \<notin> set P"
  shows "py_find c (P @ c # R) = int (length P)"
proof -
  have "takeWhile (\<lambda>x. x \<noteq> c) (P @ c # R) = P"
    using assms by (auto simp add: takeWhile_tail)
  then show ?thesis by (simp add: py_find_def)
qed

lemma rfind_last:
  assumes "c \<notin> set Q"
  shows "py_rfind c (L @ c # Q) = int (length L)"
proof -
  have "takeWhile (\<lambda>x. x \<noteq> c) (rev Q @ c # rev L) = rev Q"
    using assms by (auto simp add: takeWhile_tail)
  then show ?thesis by (simp add: py_rfind_def)
qed

lemma py_slice_nat: "py_slice (int i) (int j) s = take (j - i) (drop i s)"
  by (simp add: py_slice_def)

lemma bracket_scan_cuts:
  assumes "CHR ''['' \<notin> set P" and "CHR '']'' \<notin> set Q"
  shows "bracket_scan (P @ CHR ''['' # B @ CHR '']'' # Q) = CHR ''['' # B @ '']''"
proof -
  let ?s = "P @ CHR ''['' # B @ CHR '']'' # Q"
  have f: "py_find (CHR ''['') ?s = int (length P)"
    using assms(1) by (rule find_first)
  have "py_rfind (CHR '']'') ((P @ CHR ''['' # B) @ CHR '']'' # Q) = int (length (P @ CHR ''['' # B))"
    using assms(2) by (rule rfind_last)
  then have e: "py_rfind (CHR '']'') ?s + 1 = int (length P + length B + 2)" by simp
  have "bracket_scan ?s = take (length P + length B + 2 - length P) (drop (length P) ?s)"
    unfolding bracket_scan_def Let_def f e py_slice_nat by simp
  then show ?thesis by simp
qed

lemma ollama_decode_prose:
  assumes "CHR ''['' \<notin> set P" and "CHR '']'' \<notin> set Q"
  shows "ollama_decode w (P @ CHR ''['' # B @ CHR '']'' # Q) = json_loads w (CHR ''['' # B @ '']'')"
proof -
  have sp: "\<not> py_isspace (CHR ''['')" "\<not> py_isspace (CHR '']'')"
    by (simp_all add: py_isspace_def)
  have s: "py_strip (P @ CHR ''['' # B @ CHR '']'' # Q) =
      py_lstrip P @ CHR ''['' # B @ CHR '']'' # py_rstrip Q"
    using sp by (rule strip_keeps)
  have "CHR ''['' \<notin> set (py_lstrip P)" "CHR '']'' \<notin> set (py_rstrip Q)"
    using assms lstrip_subset [of P] rstrip_subset [of Q] by auto
  then show ?thesis
    by (simp add: ollama_decode_def s bracket_scan_cuts)
qed

text \<open>
  C5 (bracket-scan tolerance), as amended: for every text \<open>A\<close> that begins with \<open>[\<close> and
  ends with \<open>]\<close>, every leading text \<open>P\<close> without \<open>[\<close> and every trailing text \<open>Q\<close>
  without \<open>]\<close>, the response \<open>P + A + Q\<close> is decoded as the bare \<open>A\<close> is: the decoder is
  given exactly \<open>A\<close>.
\<close>

theorem bracket_scan_tolerance:
  assumes "CHR ''['' \<notin> set P" and "CHR '']'' \<notin> set Q"
    and "A = CHR ''['' # B @ '']''"
  shows "ollama_decode w (P @ A @ Q) = ollama_decode w A \<and>
    ollama_decode w (P @ A @ Q) = json_loads w A"
proof -
  have a: "ollama_decode w (P @ A @ Q) = json_loads w A"
    using ollama_decode_prose [OF assms(1,2), of w B] assms(3) by simp
  have b: "ollama_decode w A = json_loads w A"
    using ollama_decode_prose [of "[]" "[]" w B] assms(3) by simp
  show ?thesis using a b by simp
qed

theorem bracket_scan_tolerance_witness:
  "CHR ''['' \<notin> set prose_before \<and> CHR '']'' \<notin> set prose_after \<and>
   four_candidates_text = CHR ''['' # take 139 (drop 1 four_candidates_text) @ '']'' \<and>
   ollama_decode offline (prose_before @ four_candidates_text @ prose_after) =
     Some (JArr (map JObj four_candidates)) \<and>
   ollama_decode offline four_candidates_text = Some (JArr (map JObj four_candidates))"
proof -
  have p: "CHR ''['' \<notin> set prose_before" by (simp add: prose_before_def)
  have q: "CHR '']'' \<notin> set prose_after" by (simp add: prose_after_def)
  have a: "four_candidates_text = CHR ''['' # take 139 (drop 1 four_candidates_text) @ '']''"
    by (simp add: four_candidates_text_def)
  have l: "json_loads offline four_candidates_text = Some (JArr (map JObj four_candidates))"
    by (simp add: offline_def w4_decode)
  note t = bracket_scan_tolerance [OF p q a, of offline]
  have c1: "ollama_decode offline (prose_before @ four_candidates_text @ prose_after) =
     Some (JArr (map JObj four_candidates))"
    using t l by metis
  have c2: "ollama_decode offline four_candidates_text = Some (JArr (map JObj four_candidates))"
    using t c1 by metis
  show ?thesis using p q a c1 c2 by blast
qed

theorem bracket_scan_tolerance_counterexample:
  "ollama_decode offline (prose_with_bracket @ ''[]'' @ []) = None \<and>
   ollama_decode offline ''[]'' = Some (JArr []) \<and>
   bracket_scan (py_strip (prose_with_bracket @ ''[]'' @ [])) = ''[is] the list: []''"
  by code_simp

subsection \<open>A fence around the answer of the Anthropic API\<close>

lemma py_split_at_sep: "sep \<noteq> [] \<Longrightarrow> py_split sep (sep @ R) = [] # py_split sep R"
  by (subst py_split.simps) (simp del: py_split.simps)

lemma py_split_step:
  "sep \<noteq> [] \<Longrightarrow> \<not> prefix sep (c # cs) \<Longrightarrow>
     py_split sep (c # cs) =
       (case py_split sep cs of [] \<Rightarrow> [[c]] | piece # pieces \<Rightarrow> (c # piece) # pieces)"
  by (subst py_split.simps) (simp del: py_split.simps split: list.splits)

lemma fence_not_prefix:
  assumes "\<not> prefix fence (c # J)"
  shows "\<not> prefix fence ((c # J) @ CHR 0x0A # R)"
proof (cases J)
  case Nil
  then show ?thesis by (simp add: fence_def)
next
  case (Cons a J')
  then show ?thesis using assms by (cases J') (simp_all add: fence_def)
qed

lemma split_to_fence:
  assumes "\<not> py_in_str fence J"
  shows "py_split fence (J @ CHR 0x0A # fence @ R) = (J @ [CHR 0x0A]) # py_split fence R"
  using assms
proof (induction J)
  case Nil
  have ne: "fence \<noteq> []" by (simp add: fence_def)
  have np: "\<not> prefix fence (CHR 0x0A # fence @ R)" by (simp add: fence_def)
  show ?case
    using py_split_step [OF ne np] py_split_at_sep [OF ne, of R]
    by (simp del: py_split.simps)
next
  case (Cons c J)
  have ne: "fence \<noteq> []" by (simp add: fence_def)
  have a: "\<not> prefix fence (c # J)" and b: "\<not> py_in_str fence J"
    using Cons.prems by simp_all
  have np: "\<not> prefix fence (c # (J @ CHR 0x0A # fence @ R))"
    using fence_not_prefix [OF a, of "fence @ R"] by simp
  show ?case
    using py_split_step [OF ne np] Cons.IH [OF b] by (simp del: py_split.simps)
qed

lemma prefix_in_str: "prefix sub s \<Longrightarrow> py_in_str sub s"
  by (cases s) simp_all

lemma in_str_dropWhile: "py_in_str sub (dropWhile P s) \<Longrightarrow> py_in_str sub s"
  by (induction s) (auto split: if_splits)

lemma rstrip_prefix: "prefix (py_rstrip s) s"
proof -
  have "s = rev (dropWhile py_isspace (rev s)) @ rev (takeWhile py_isspace (rev s))"
    by (metis rev_append rev_rev_ident takeWhile_dropWhile_id)
  then show ?thesis unfolding py_rstrip_def by (metis prefixI)
qed

lemma strip_not_fenced:
  assumes "\<not> py_in_str fence J"
  shows "\<not> prefix fence (py_strip J)"
proof
  assume "prefix fence (py_strip J)"
  then have "prefix fence (py_lstrip J)"
    using rstrip_prefix [of "py_lstrip J"] by (simp add: py_strip_def)
  then have "py_in_str fence (py_lstrip J)" by (rule prefix_in_str)
  then have "py_in_str fence J" unfolding py_lstrip_def by (rule in_str_dropWhile)
  with assms show False by simp
qed

lemma strip_fence_plain:
  assumes "\<not> py_in_str fence J"
  shows "strip_fence J = Some (py_strip J)"
  using strip_not_fenced [OF assms] by (simp add: strip_fence_def)

lemma strip_fenced_text:
  "py_strip (fence @ X @ fence) = fence @ X @ fence"
proof -
  have sp: "\<not> py_isspace (CHR 0x60)" by (simp add: py_isspace_def)
  have "py_strip ([] @ CHR 0x60 # ([CHR 0x60, CHR 0x60] @ X @ [CHR 0x60, CHR 0x60]) @ CHR 0x60 # []) =
      py_lstrip [] @ CHR 0x60 # ([CHR 0x60, CHR 0x60] @ X @ [CHR 0x60, CHR 0x60]) @ CHR 0x60 # py_rstrip []"
    using sp sp by (rule strip_keeps)
  then show ?thesis by (simp add: fence_def py_lstrip_def py_rstrip_def)
qed

lemma strip_fence_wrapped:
  assumes "\<not> py_in_str fence J" and "tag = [] \<or> tag = ''json''"
  shows "strip_fence (fence @ tag @ newline @ J @ newline @ fence) = Some (newline @ J @ newline)"
proof -
  have ne: "fence \<noteq> []" by (simp add: fence_def)
  have nf: "\<not> py_in_str fence (tag @ newline @ J)"
    using assms by (auto simp add: newline_def fence_def)
  have "py_split fence (fence @ (tag @ newline @ J) @ CHR 0x0A # fence @ []) =
      [] # ((tag @ newline @ J) @ [CHR 0x0A]) # py_split fence []"
    using py_split_at_sep [OF ne] split_to_fence [OF nf, of "[]"]
    by (simp del: py_split.simps)
  moreover have "py_split fence [] = [[]]"
    by (subst py_split.simps) (simp del: py_split.simps)
  ultimately have sp: "py_split fence (fence @ tag @ newline @ J @ newline @ fence) =
      [[], tag @ newline @ J @ newline, []]"
    by (simp add: newline_def del: py_split.simps)
  have st: "py_strip (fence @ (tag @ newline @ J @ newline) @ fence) =
      fence @ (tag @ newline @ J @ newline) @ fence"
    by (rule strip_fenced_text)
  show ?thesis
    using assms(2) sp st
    by (auto simp add: strip_fence_def Let_def newline_def simp del: py_split.simps)
qed

subsection \<open>The order of the providers, and what they return\<close>

lemma ollama_starts: "\<exists>rest. snd (extract_with_ollama w t) = Net_tags # rest"
  by (simp add: extract_with_ollama_def Let_def split: option.splits)

lemma anthropic_no_tags: "Net_tags \<notin> set (snd (extract_with_anthropic w t))"
  by (simp add: extract_with_anthropic_def Let_def split: option.splits)

lemma store_one_no_tags:
  "\<exists>ext. snd (store_one w sid d st) = snd st @ ext \<and> Net_tags \<notin> set ext"
  by (simp add: store_one_def Let_def split: option.splits)

lemma store_loop_no_tags:
  "\<exists>ext. snd (store_loop w sid xs st) = snd st @ ext \<and> Net_tags \<notin> set ext"
proof (induction xs arbitrary: st)
  case Nil
  then show ?case by simp
next
  case (Cons x xs)
  show ?case
  proof (cases x)
    case (JObj d)
    show ?thesis
    proof (cases "\<not> truthy (dict_get d ''type'') \<or> \<not> truthy (dict_get d ''content'')")
      case True
      then show ?thesis using Cons.IH [of st] JObj by auto
    next
      case False
      obtain e1 where e1: "snd (store_one w sid d st) = snd st @ e1" "Net_tags \<notin> set e1"
        using store_one_no_tags [of w sid d st] by blast
      obtain e2 where e2: "snd (store_loop w sid xs (store_one w sid d st)) =
          snd (store_one w sid d st) @ e2" "Net_tags \<notin> set e2"
        using Cons.IH [of "store_one w sid d st"] by blast
      have "snd (store_loop w sid (x # xs) st) = snd st @ (e1 @ e2)"
        using False JObj e1 e2 by simp
      moreover have "Net_tags \<notin> set (e1 @ e2)" using e1 e2 by simp
      ultimately show ?thesis by blast
    qed
  qed simp_all
qed

lemma store_learnings_no_tags:
  "\<exists>ext. snd (store_learnings w v sid log) = log @ ext \<and> Net_tags \<notin> set ext"
  using store_loop_no_tags [of w sid _ "(0, log)"]
  by (simp add: store_learnings_def split: option.splits)

lemma store_phase_no_tags:
  "\<exists>ext. events (store_phase w v sid log) = log @ ext \<and> Net_tags \<notin> set ext"
proof (cases "py_len v")
  case None
  then show ?thesis by (simp add: store_phase_def)
next
  case (Some n)
  let ?log = "log @ [Stderr (Extracted n), Net_health]"
  obtain r l where rl: "store_learnings w v sid ?log = (r, l)"
    by (cases "store_learnings w v sid ?log")
  obtain ext where ext: "l = ?log @ ext" "Net_tags \<notin> set ext"
    using store_learnings_no_tags [of w v sid ?log] rl by auto
  show ?thesis
    using Some rl ext
    by (cases "daemon_health w"; cases r) (simp_all add: store_phase_def Let_def)
qed

lemma main_events:
  "\<exists>rest. events (main w t sid) =
     Stderr Extracting # snd (extract_learnings w (truncate_transcript t)) @ rest \<and>
     Net_tags \<notin> set rest"
proof -
  let ?x = "extract_learnings w (truncate_transcript t)"
  obtain ext where
    "events (store_phase w (fst ?x) sid (Stderr Extracting # snd ?x)) =
       (Stderr Extracting # snd ?x) @ ext" "Net_tags \<notin> set ext"
    using store_phase_no_tags [of w "fst ?x" sid "Stderr Extracting # snd ?x"] by blast
  then show ?thesis by (simp add: main_def Let_def)
qed

lemma main_asks_ollama_iff:
  "Net_tags \<in> set (events (main w t sid)) \<longleftrightarrow>
     fst (extract_with_anthropic w (truncate_transcript t)) = JNull"
proof -
  obtain rest where r: "events (main w t sid) =
     Stderr Extracting # snd (extract_learnings w (truncate_transcript t)) @ rest"
     "Net_tags \<notin> set rest"
    using main_events [of w t sid] by blast
  obtain o_rest where o: "snd (extract_with_ollama w (truncate_transcript t)) = Net_tags # o_rest"
    using ollama_starts [of w "truncate_transcript t"] by blast
  show ?thesis
    using r o anthropic_no_tags [of w "truncate_transcript t"]
    by (simp add: extract_learnings_order)
qed

lemma main_exit_before_probe:
  "exit_code (main w t sid) \<noteq> 0 \<and> Net_health \<notin> set (events (main w t sid)) \<longleftrightarrow>
     fst (extract_learnings w (truncate_transcript t)) = JNull \<or>
     truthy (fst (extract_learnings w (truncate_transcript t))) \<and>
     py_len (fst (extract_learnings w (truncate_transcript t))) = None"
proof -
  let ?x = "extract_learnings w (truncate_transcript t)"
  note q = extract_quiet [of w "truncate_transcript t"]
  show ?thesis
  proof (cases "fst ?x = JNull")
    case True
    then show ?thesis using main_fatal [of w t sid] by simp
  next
    case nn: False
    show ?thesis
    proof (cases "truthy (fst ?x)")
      case False
      then show ?thesis using nn by (simp add: main_def Let_def)
    next
      case tr: True
      show ?thesis
      proof (cases "py_len (fst ?x)")
        case None
        then show ?thesis using nn tr q by (simp add: main_def Let_def store_phase_def)
      next
        case (Some n)
        obtain ext where ext:
          "events (store_phase w (fst ?x) sid (Stderr Extracting # snd ?x)) =
             (Stderr Extracting # snd ?x) @ ext" "Net_health \<in> set ext"
          using store_phase_extends [of w "fst ?x" sid "Stderr Extracting # snd ?x"] Some by auto
        then show ?thesis using nn tr Some by (simp add: main_def Let_def)
      qed
    qed
  qed
qed

lemma ollama_reads_reply:
  assumes "ollama_tags w = Some r" "available_models r = Some av" "select_model av = Some m"
    "m \<noteq> []" "ollama_generate w m (EXTRACTION_PROMPT @ t) = Some reply"
    "ollama_text reply = Some text"
  shows "fst (extract_with_ollama w t) =
    (case ollama_decode w text of None \<Rightarrow> JNull | Some v \<Rightarrow> v)"
  using assms by (simp add: extract_with_ollama_def Let_def split: option.splits)

lemma anthropic_reads_reply:
  assumes "api_key w = Some key" "key \<noteq> []"
    "anthropic_reply w (EXTRACTION_PROMPT @ t) = Some reply" "anthropic_text reply = Some text"
  shows "extract_with_anthropic w t =
    (case anthropic_decode w text of
       None \<Rightarrow> (JNull, [Net_anthropic (EXTRACTION_PROMPT @ t), Stderr Anthropic_error])
     | Some v \<Rightarrow> (v, [Net_anthropic (EXTRACTION_PROMPT @ t)]))"
  using assms by (simp add: extract_with_anthropic_def Let_def split: option.splits)

lemma local_model_run:
  "main local_model_world ''log'' ''s1'' =
     Exit 1 [Stderr Extracting, Stderr Anthropic_unavailable, Net_tags,
             Stderr (Using_model ''phi3''),
             Net_generate ''phi3'' (EXTRACTION_PROMPT @ truncate_transcript ''log''),
             Stderr (Extracted 4), Net_health, Stderr Daemon_unreachable,
             Stdout_json (JArr (map JObj four_candidates))]"
proof -
  have av: "available_models other_model = Some [''phi3'']"
    by (simp add: other_model_def available_models_def model_name_def)
  have sel: "select_model [''phi3''] = Some ''phi3''"
    by (simp add: select_model_def preferred_def)
  have s: "py_strip four_candidates_text = four_candidates_text" by code_simp
  have b: "bracket_scan four_candidates_text = four_candidates_text" by code_simp
  have d: "ollama_decode local_model_world four_candidates_text =
      Some (JArr (map JObj four_candidates))"
    by (simp add: ollama_decode_def s b local_model_world_def offline_def w4_decode)
  have o: "extract_with_ollama local_model_world (truncate_transcript ''log'') =
      (JArr (map JObj four_candidates),
       [Net_tags, Stderr (Using_model ''phi3''),
        Net_generate ''phi3'' (EXTRACTION_PROMPT @ truncate_transcript ''log'')])"
    using d
    by (simp add: extract_with_ollama_def Let_def av sel ollama_text_def local_model_world_def)
  have a: "extract_with_anthropic local_model_world (truncate_transcript ''log'') = (JNull, [])"
    by (simp add: extract_with_anthropic_def local_model_world_def offline_def)
  have h: "daemon_health local_model_world = Health_connection_error"
    by (simp add: local_model_world_def offline_def)
  show ?thesis
    using a o h four_candidates_truthy
    by (simp add: main_def Let_def extract_learnings_def store_phase_def)
qed

text \<open>
  C1 (provider fallback), as amended: without the credential variable the Anthropic
  provider returns \<open>None\<close> and does nothing, no request included. Ollama is asked (its
  listing request is issued) exactly when Anthropic returned \<open>None\<close>, after everything
  Anthropic did, and what either provider returns is what its reply decodes to. When
  both providers return \<open>None\<close> the run exits with status 1 without a health probe, a
  \<open>/store\<close> request or any output, and the run ends with the diagnostic that no LLM is
  available only then. Before the health probe a non-zero exit happens only then or when
  the decoded value has no length; an extracted empty list ends the run with status 0.
  A non-zero exit without a \<open>/store\<close> request is not confined to that case: it also
  follows a failed health probe.
\<close>

theorem provider_fallback:
  "(api_key w = None \<longrightarrow> extract_with_anthropic w tr = (JNull, [])) \<and>
   (\<exists>rest. snd (extract_with_ollama w tr) = Net_tags # rest) \<and>
   Net_tags \<notin> set (snd (extract_with_anthropic w tr)) \<and>
   extract_learnings w tr =
     (if fst (extract_with_anthropic w tr) = JNull
      then (fst (extract_with_ollama w tr),
            snd (extract_with_anthropic w tr) @ Stderr Anthropic_unavailable #
            snd (extract_with_ollama w tr))
      else extract_with_anthropic w tr) \<and>
   (\<exists>rest. events (main w t sid) =
      Stderr Extracting # snd (extract_learnings w (truncate_transcript t)) @ rest \<and>
      Net_tags \<notin> set rest) \<and>
   (Net_tags \<in> set (events (main w t sid)) \<longleftrightarrow>
      fst (extract_with_anthropic w (truncate_transcript t)) = JNull) \<and>
   (Stderr No_llm \<in> set (events (main w t sid)) \<longleftrightarrow>
      fst (extract_with_anthropic w (truncate_transcript t)) = JNull \<and>
      fst (extract_with_ollama w (truncate_transcript t)) = JNull) \<and>
   (fst (extract_with_anthropic w (truncate_transcript t)) = JNull \<and>
    fst (extract_with_ollama w (truncate_transcript t)) = JNull \<longrightarrow>
      exit_code (main w t sid) = 1 \<and> store_calls (events (main w t sid)) = [] \<and>
      stdout_dumps (events (main w t sid)) = [] \<and>
      Net_health \<notin> set (events (main w t sid))) \<and>
   (exit_code (main w t sid) \<noteq> 0 \<and> Net_health \<notin> set (events (main w t sid)) \<longleftrightarrow>
      fst (extract_learnings w (truncate_transcript t)) = JNull \<or>
      truthy (fst (extract_learnings w (truncate_transcript t))) \<and>
      py_len (fst (extract_learnings w (truncate_transcript t))) = None) \<and>
   (fst (extract_learnings w (truncate_transcript t)) = JArr [] \<longrightarrow>
      exit_code (main w t sid) = 0 \<and> store_calls (events (main w t sid)) = []) \<and>
   (ollama_tags w = Some r \<and> available_models r = Some av \<and> select_model av = Some m \<and>
    m \<noteq> [] \<and> ollama_generate w m (EXTRACTION_PROMPT @ tr) = Some reply \<and>
    ollama_text reply = Some text \<longrightarrow>
      fst (extract_with_ollama w tr) =
        (case ollama_decode w text of None \<Rightarrow> JNull | Some v \<Rightarrow> v)) \<and>
   (api_key w = Some key \<and> key \<noteq> [] \<and>
    anthropic_reply w (EXTRACTION_PROMPT @ tr) = Some reply' \<and>
    anthropic_text reply' = Some text' \<longrightarrow>
      extract_with_anthropic w tr =
        (case anthropic_decode w text' of
           None \<Rightarrow> (JNull, [Net_anthropic (EXTRACTION_PROMPT @ tr), Stderr Anthropic_error])
         | Some v \<Rightarrow> (v, [Net_anthropic (EXTRACTION_PROMPT @ tr)])))"
proof -
  have a: "api_key w = None \<longrightarrow> extract_with_anthropic w tr = (JNull, [])"
    by (simp add: extract_with_anthropic_def)
  have both: "fst (extract_learnings w (truncate_transcript t)) = JNull \<longleftrightarrow>
      fst (extract_with_anthropic w (truncate_transcript t)) = JNull \<and>
      fst (extract_with_ollama w (truncate_transcript t)) = JNull"
    by (simp add: extract_learnings_order)
  have f: "fst (extract_with_anthropic w (truncate_transcript t)) = JNull \<and>
    fst (extract_with_ollama w (truncate_transcript t)) = JNull \<longrightarrow>
      exit_code (main w t sid) = 1 \<and> store_calls (events (main w t sid)) = [] \<and>
      stdout_dumps (events (main w t sid)) = [] \<and>
      Net_health \<notin> set (events (main w t sid))"
    using main_fatal [of w t sid] both by blast
  have n: "Stderr No_llm \<in> set (events (main w t sid)) \<longleftrightarrow>
      fst (extract_with_anthropic w (truncate_transcript t)) = JNull \<and>
      fst (extract_with_ollama w (truncate_transcript t)) = JNull"
    using main_no_llm_iff [of w t sid] both by blast
  have e: "fst (extract_learnings w (truncate_transcript t)) = JArr [] \<longrightarrow>
      exit_code (main w t sid) = 0 \<and> store_calls (events (main w t sid)) = []"
    using main_empty [of w t sid] by blast
  have o: "ollama_tags w = Some r \<and> available_models r = Some av \<and> select_model av = Some m \<and>
    m \<noteq> [] \<and> ollama_generate w m (EXTRACTION_PROMPT @ tr) = Some reply \<and>
    ollama_text reply = Some text \<longrightarrow>
      fst (extract_with_ollama w tr) =
        (case ollama_decode w text of None \<Rightarrow> JNull | Some v \<Rightarrow> v)"
    using ollama_reads_reply [of w r av m tr reply "text"] by blast
  have p: "api_key w = Some key \<and> key \<noteq> [] \<and>
    anthropic_reply w (EXTRACTION_PROMPT @ tr) = Some reply' \<and>
    anthropic_text reply' = Some text' \<longrightarrow>
      extract_with_anthropic w tr =
        (case anthropic_decode w text' of
           None \<Rightarrow> (JNull, [Net_anthropic (EXTRACTION_PROMPT @ tr), Stderr Anthropic_error])
         | Some v \<Rightarrow> (v, [Net_anthropic (EXTRACTION_PROMPT @ tr)]))"
    using anthropic_reads_reply [of w key tr reply' text'] by blast
  show ?thesis
    using a ollama_starts [of w tr] anthropic_no_tags [of w tr] extract_learnings_order [of w tr]
      main_events [of w t sid] main_asks_ollama_iff [of w t sid] n f
      main_exit_before_probe [of w t sid] e o p
    by (intro conjI) assumption+
qed

theorem provider_fallback_witness:
  "api_key offline = None \<and>
   extract_with_anthropic offline (truncate_transcript ''log'') = (JNull, []) \<and>
   fst (extract_with_ollama offline (truncate_transcript ''log'')) = JNull \<and>
   Stderr No_llm \<in> set (events (main offline ''log'' ''s1'')) \<and>
   exit_code (main offline ''log'' ''s1'') = 1 \<and>
   store_calls (events (main offline ''log'' ''s1'')) = [] \<and>
   Net_health \<notin> set (events (main offline ''log'' ''s1'')) \<and>
   api_key local_model_world = None \<and>
   extract_with_anthropic local_model_world (truncate_transcript ''log'') = (JNull, []) \<and>
   Net_tags \<in> set (events (main local_model_world ''log'' ''s1'')) \<and>
   ollama_tags local_model_world = Some other_model \<and>
   available_models other_model = Some [''phi3''] \<and>
   select_model [''phi3''] = Some ''phi3'' \<and>
   ollama_generate local_model_world ''phi3'' (EXTRACTION_PROMPT @ truncate_transcript ''log'') =
     Some (JObj [(''response'', JStr four_candidates_text)]) \<and>
   ollama_text (JObj [(''response'', JStr four_candidates_text)]) = Some four_candidates_text \<and>
   fst (extract_with_ollama local_model_world (truncate_transcript ''log'')) =
     JArr (map JObj four_candidates) \<and>
   Stderr No_llm \<notin> set (events (main local_model_world ''log'' ''s1'')) \<and>
   fst (extract_learnings empty_answer_world (truncate_transcript ''log'')) = JArr [] \<and>
   exit_code (main empty_answer_world ''log'' ''s1'') = 0 \<and>
   Net_tags \<notin> set (events (main empty_answer_world ''log'' ''s1''))"
proof -
  let ?t = "truncate_transcript ''log''"
  have k: "api_key offline = None" by (simp add: offline_def)
  have o: "fst (extract_with_ollama offline ?t) = JNull"
    by (simp add: extract_with_ollama_def offline_def)
  note p1 = provider_fallback [of offline ?t "''log''" "''s1''"]
  have a: "extract_with_anthropic offline ?t = (JNull, [])"
    using p1 k by blast
  have f: "Stderr No_llm \<in> set (events (main offline ''log'' ''s1'')) \<and>
     exit_code (main offline ''log'' ''s1'') = 1 \<and>
     store_calls (events (main offline ''log'' ''s1'')) = [] \<and>
     Net_health \<notin> set (events (main offline ''log'' ''s1''))"
    using p1 a o by simp
  have k2: "api_key local_model_world = None" by (simp add: local_model_world_def offline_def)
  have g1: "ollama_tags local_model_world = Some other_model"
    by (simp add: local_model_world_def)
  have g2: "available_models other_model = Some [''phi3'']"
    by (simp add: other_model_def available_models_def model_name_def)
  have g3: "select_model [''phi3''] = Some ''phi3''"
    by (simp add: select_model_def preferred_def)
  have g4: "ollama_generate local_model_world ''phi3'' (EXTRACTION_PROMPT @ ?t) =
     Some (JObj [(''response'', JStr four_candidates_text)])"
    by (simp add: local_model_world_def)
  have g5: "ollama_text (JObj [(''response'', JStr four_candidates_text)]) = Some four_candidates_text"
    by (simp add: ollama_text_def)
  have g6: "ollama_decode local_model_world four_candidates_text =
      Some (JArr (map JObj four_candidates))"
  proof -
    have s: "py_strip four_candidates_text = four_candidates_text" by code_simp
    have b: "bracket_scan four_candidates_text = four_candidates_text" by code_simp
    show ?thesis
      by (simp add: ollama_decode_def s b local_model_world_def offline_def w4_decode)
  qed
  have ne: "''phi3'' \<noteq> []" by simp
  note p2 = provider_fallback [of local_model_world ?t "''log''" "''s1''" other_model
      "[''phi3'']" "''phi3''" "JObj [(''response'', JStr four_candidates_text)]"
      four_candidates_text]
  have a2: "extract_with_anthropic local_model_world ?t = (JNull, [])"
    using p2 k2 by blast
  have t2: "Net_tags \<in> set (events (main local_model_world ''log'' ''s1''))"
    using p2 a2 by simp
  have r2: "fst (extract_with_ollama local_model_world ?t) = JArr (map JObj four_candidates)"
    using p2 g1 g2 g3 g4 g5 g6 ne by simp
  have n2: "Stderr No_llm \<notin> set (events (main local_model_world ''log'' ''s1''))"
    using p2 r2 by simp
  have e: "fst (extract_learnings empty_answer_world ?t) = JArr []"
    using empty_answer_extract by simp
  note p3 = provider_fallback [of empty_answer_world ?t "''log''" "''s1''"]
  have z: "exit_code (main empty_answer_world ''log'' ''s1'') = 0"
    using p3 e by blast
  have a3: "fst (extract_with_anthropic empty_answer_world ?t) \<noteq> JNull"
  proof -
    have sf: "strip_fence ''[]'' = Some ''[]''" by code_simp
    have d: "example_loads ''[]'' = Some (JArr [])" by code_simp
    show ?thesis
      by (simp add: empty_answer_world_def extract_with_anthropic_def with_anthropic_def
          anthropic_text_answer anthropic_decode_def sf offline_def d Let_def)
  qed
  have t3: "Net_tags \<notin> set (events (main empty_answer_world ''log'' ''s1''))"
    using p3 a3 by blast
  show ?thesis using k a o f k2 a2 t2 g1 g2 g3 g4 g5 r2 n2 e z t3 by blast
qed

theorem provider_fallback_counterexample:
  "fst (extract_with_anthropic unreachable_world (truncate_transcript ''log'')) =
     JArr (map JObj four_candidates) \<and>
   exit_code (main unreachable_world ''log'' ''s1'') = 1 \<and>
   store_calls (events (main unreachable_world ''log'' ''s1'')) = [] \<and>
   \<not> (fst (extract_with_anthropic unreachable_world (truncate_transcript ''log'')) = JNull \<and>
      fst (extract_with_ollama unreachable_world (truncate_transcript ''log'')) = JNull)"
proof -
  have a: "fst (extract_with_anthropic unreachable_world (truncate_transcript ''log'')) =
     JArr (map JObj four_candidates)"
    by (simp add: unreachable_world_def extract_with_anthropic_def with_anthropic_def
        anthropic_text_answer anthropic_decode_def w4_fence offline_def w4_decode Let_def)
  show ?thesis using a unreachable_run by simp
qed

subsection \<open>The degradation path\<close>

lemma main_unreachable:
  assumes "fst (extract_learnings w (truncate_transcript t)) = JArr xs" and "xs \<noteq> []"
    and "daemon_health w = Health_connection_error \<or> daemon_health w = Health_other_error"
  shows "events (main w t sid) =
    Stderr Extracting # snd (extract_learnings w (truncate_transcript t)) @
      [Stderr (Extracted (length xs)), Net_health, Stderr Daemon_unreachable,
       Stdout_json (JArr xs)]"
  using assms by (auto simp add: main_def Let_def store_phase_def)

text \<open>
  C2 (degradation path), as amended: for every extracted list of learnings that is not
  empty, when the health probe raises, the run prints the whole list once as JSON on
  standard output (its last action, and its only output there), sends no \<open>/store\<close>
  request and exits with status 1; when the probe returns a status other than 200, the
  run sends no \<open>/store\<close> request and exits with status 1. An extracted empty list never
  reaches the probe, whatever the daemon would answer: the run exits with status 0 and
  prints nothing on standard output.
\<close>

theorem degradation_path:
  assumes "fst (extract_learnings w (truncate_transcript t)) = JArr xs"
  shows "(xs \<noteq> [] \<and> daemon_health w \<noteq> Health_status 200 \<longrightarrow>
      exit_code (main w t sid) = 1 \<and> store_calls (events (main w t sid)) = []) \<and>
    (xs \<noteq> [] \<and>
     (daemon_health w = Health_connection_error \<or> daemon_health w = Health_other_error) \<longrightarrow>
      events (main w t sid) =
        Stderr Extracting # snd (extract_learnings w (truncate_transcript t)) @
          [Stderr (Extracted (length xs)), Net_health, Stderr Daemon_unreachable,
           Stdout_json (JArr xs)] \<and>
      stdout_dumps (events (main w t sid)) = [JArr xs]) \<and>
    (xs = [] \<longrightarrow>
      exit_code (main w t sid) = 0 \<and> store_calls (events (main w t sid)) = [] \<and>
      stdout_dumps (events (main w t sid)) = [] \<and>
      Net_health \<notin> set (events (main w t sid)))"
proof -
  have a: "exit_code (main w t sid) = 1 \<and> store_calls (events (main w t sid)) = []"
    if "xs \<noteq> []" "daemon_health w \<noteq> Health_status 200"
    using main_degraded [OF assms that, of sid] by simp
  have b: "events (main w t sid) =
        Stderr Extracting # snd (extract_learnings w (truncate_transcript t)) @
          [Stderr (Extracted (length xs)), Net_health, Stderr Daemon_unreachable,
           Stdout_json (JArr xs)] \<and>
      stdout_dumps (events (main w t sid)) = [JArr xs]"
    if h: "xs \<noteq> []"
      "daemon_health w = Health_connection_error \<or> daemon_health w = Health_other_error"
  proof -
    have d: "daemon_health w \<noteq> Health_status 200" using h(2) by auto
    show ?thesis
      using main_unreachable [OF assms h, of sid] main_degraded [OF assms h(1) d, of sid] h(2)
      by auto
  qed
  have c: "exit_code (main w t sid) = 0 \<and> store_calls (events (main w t sid)) = [] \<and>
      stdout_dumps (events (main w t sid)) = [] \<and>
      Net_health \<notin> set (events (main w t sid))" if "xs = []"
    using main_empty [of w t sid] assms that by simp
  show ?thesis using a b c by blast
qed

theorem degradation_path_witness:
  "fst (extract_learnings unreachable_world (truncate_transcript ''log'')) =
     JArr (map JObj four_candidates) \<and>
   map JObj four_candidates \<noteq> [] \<and>
   daemon_health unreachable_world = Health_connection_error \<and>
   exit_code (main unreachable_world ''log'' ''s1'') = 1 \<and>
   store_calls (events (main unreachable_world ''log'' ''s1'')) = [] \<and>
   stdout_dumps (events (main unreachable_world ''log'' ''s1'')) = [JArr (map JObj four_candidates)] \<and>
   fst (extract_learnings unhealthy_world (truncate_transcript ''log'')) =
     JArr (map JObj four_candidates) \<and>
   daemon_health unhealthy_world = Health_status 503 \<and>
   exit_code (main unhealthy_world ''log'' ''s1'') = 1 \<and>
   store_calls (events (main unhealthy_world ''log'' ''s1'')) = [] \<and>
   fst (extract_learnings empty_answer_world (truncate_transcript ''log'')) = JArr [] \<and>
   exit_code (main empty_answer_world ''log'' ''s1'') = 0 \<and>
   stdout_dumps (events (main empty_answer_world ''log'' ''s1'')) = []"
proof -
  have u: "fst (extract_learnings unreachable_world (truncate_transcript ''log'')) =
     JArr (map JObj four_candidates)"
    using unreachable_extract by simp
  have uh: "daemon_health unreachable_world = Health_connection_error"
    by (simp add: unreachable_world_def with_anthropic_def offline_def)
  have v: "fst (extract_learnings unhealthy_world (truncate_transcript ''log'')) =
     JArr (map JObj four_candidates)"
    using unhealthy_extract by simp
  have vh: "daemon_health unhealthy_world = Health_status 503"
    by (simp add: unhealthy_world_def with_anthropic_def)
  have e: "fst (extract_learnings empty_answer_world (truncate_transcript ''log'')) = JArr []"
    using empty_answer_extract by simp
  have ne: "map JObj four_candidates \<noteq> []" using four_candidates_truthy by simp
  have d1: "daemon_health unreachable_world \<noteq> Health_status 200" using uh by simp
  have d2: "daemon_health unhealthy_world \<noteq> Health_status 200" using vh by simp
  have c1: "exit_code (main unreachable_world ''log'' ''s1'') = 1 \<and>
     store_calls (events (main unreachable_world ''log'' ''s1'')) = [] \<and>
     stdout_dumps (events (main unreachable_world ''log'' ''s1'')) = [JArr (map JObj four_candidates)]"
    using degradation_path [OF u, of "''s1''"] uh d1 ne by blast
  have c2: "exit_code (main unhealthy_world ''log'' ''s1'') = 1 \<and>
     store_calls (events (main unhealthy_world ''log'' ''s1'')) = []"
    using degradation_path [OF v, of "''s1''"] d2 ne by blast
  have c3: "exit_code (main empty_answer_world ''log'' ''s1'') = 0 \<and>
     stdout_dumps (events (main empty_answer_world ''log'' ''s1'')) = []"
    using degradation_path [OF e, of "''s1''"] by simp
  show ?thesis using u ne uh c1 v vh c2 e c3 by blast
qed

theorem degradation_path_counterexample:
  "fst (extract_learnings empty_answer_world (truncate_transcript ''log'')) = JArr [] \<and>
   daemon_health empty_answer_world = Health_connection_error \<and>
   exit_code (main empty_answer_world ''log'' ''s1'') = 0 \<and>
   stdout_dumps (events (main empty_answer_world ''log'' ''s1'')) = [] \<and>
   \<not> (exit_code (main empty_answer_world ''log'' ''s1'') \<noteq> 0 \<and>
      stdout_dumps (events (main empty_answer_world ''log'' ''s1'')) = [JArr []])"
proof -
  have e: "fst (extract_learnings empty_answer_world (truncate_transcript ''log'')) = JArr []"
    using empty_answer_extract by simp
  have eh: "daemon_health empty_answer_world = Health_connection_error"
    by (simp add: empty_answer_world_def with_anthropic_def offline_def)
  show ?thesis using e eh empty_answer_run by simp
qed

end
